theory Spec2Isabelle
  imports Main "HOL-Library.Word"
begin

section \<open>The btrfs sysfs registry (fs/btrfs/sysfs.c)\<close>

text \<open>
  The source file holds two successive designs of the same subsystem. Where both designs
  define a symbol of the same name with a different body, the definitions below carry the
  suffix \<open>_v1\<close> (first design, with per-node completions) or \<open>_v2\<close> (second
  design, with dynamically allocated directory nodes). The four dispatch functions are
  textually the same in both designs and are defined once.
\<close>

subsection \<open>Results of the C functions\<close>

text \<open>
  A C function that returns a negative errno returns \<open>Inl\<close> of that errno here.
  \<open>Undefined_behaviour\<close> marks an execution that leaves the C abstract machine: a write
  past the end of a buffer, or a read of bytes of an object that the model does not hold.
\<close>

datatype error = EIO | EINVAL | ENOMEM | EEXIST | ENOENT | Undefined_behaviour

text \<open>What a show function produces: its \<open>ssize_t\<close> return value and the bytes written
  to \<open>buf\<close>.\<close>

type_synonym shown = "int \<times> string"

subsection \<open>\<open>sprintf(buf, "%d\n", x)\<close>\<close>

definition digits :: string where
  "digits = ''0123456789''"

definition digit_char :: "nat \<Rightarrow> char" where
  "digit_char d = digits ! d"

function utoa :: "nat \<Rightarrow> string" where
  "utoa n = (if n < 10 then [digit_char n] else utoa (n div 10) @ [digit_char (n mod 10)])"
  by pat_completeness auto
termination
  by (relation "measure id") auto

declare utoa.simps [simp del]

text \<open>\<open>sprintf\<close> is a function of the C library (the kernel's \<open>lib/vsprintf.c\<close>),
  outside the file. Its conversion \<open>%d\<close> takes an \<open>int\<close> and prints it in signed
  decimal: \<open>utoa\<close> gives the digits of a magnitude, most significant first.\<close>

definition itoa :: "int \<Rightarrow> string" where
  "itoa i = (if i < 0 then CHR ''-'' # utoa (nat (- i)) else utoa (nat i))"

definition newline :: char where
  "newline = CHR 0x0A"

text \<open>\<open>sprintf(buf, "%d\n", x)\<close> for a 32-bit \<open>int\<close> \<open>x\<close>: the bytes stored (without
  the terminating NUL) and the count returned.\<close>

definition sprintf_d_nl :: "32 word \<Rightarrow> shown" where
  "sprintf_d_nl x = (let s = itoa (sint x) @ [newline] in (int (length s), s))"

text \<open>The value a string of decimal digits denotes, and whether a string is a canonical
  decimal numeral (digits only, no leading zero except for zero itself). They say what
  \<open>utoa\<close> is to compute.\<close>

definition digit_val :: "char \<Rightarrow> nat" where
  "digit_val c = length (takeWhile (\<lambda>x. x \<noteq> c) digits)"

definition is_digit :: "char \<Rightarrow> bool" where
  "is_digit c = (c \<in> set digits)"

definition dec_value :: "string \<Rightarrow> nat" where
  "dec_value s = foldl (\<lambda>a c. 10 * a + digit_val c) 0 s"

definition canonical_decimal :: "string \<Rightarrow> bool" where
  "canonical_decimal s = (s \<noteq> [] \<and> list_all is_digit s \<and> (hd s = CHR ''0'' \<longrightarrow> s = ''0''))"

subsection \<open>Attributes\<close>

text \<open>\<open>struct attribute\<close> of the kernel, as far as the file uses it.\<close>

record attribute =
  name :: string
  mode :: nat

text \<open>
  \<open>struct btrfs_kobject_attr\<close> and (second design) \<open>struct btrfs_device_attr\<close>: an
  attribute with two function pointers, \<open>None\<close> for \<open>NULL\<close>. A function pointer is
  the tag of a function of the file (\<open>'sh\<close> for show functions, \<open>'st\<close> for store functions):
  the pointed-to function receives the attribute itself, so it cannot be stored as a HOL
  function inside the record.
\<close>

record ('sh, 'st) btrfs_attr =
  attr :: attribute
  "show" :: "'sh option"
  store :: "'st option"

text \<open>First design, \<open>struct btrfs_device_attr\<close>: the same, with \<open>int offset\<close>.\<close>

record ('sh, 'st) btrfs_device_attr_v1 = "('sh, 'st) btrfs_attr" +
  offset :: nat

text \<open>\<open>__ATTR(_name, _mode, _show, _store)\<close> of the kernel, used by \<open>BTRFS_ATTR\<close> and
  \<open>BTRFS_DEVICE_ATTR\<close>.\<close>

definition ATTR :: "string \<Rightarrow> nat \<Rightarrow> 'sh option \<Rightarrow> 'st option \<Rightarrow> ('sh, 'st) btrfs_attr" where
  "ATTR n m sh st = \<lparr>attr = \<lparr>name = n, mode = m\<rparr>, show = sh, store = st\<rparr>"

text \<open>The permission bits \<open>0444\<close> (octal).\<close>

definition mode_0444 :: nat where
  "mode_0444 = 4 * 64 + 4 * 8 + 4"

subsection \<open>Dispatch (\<open>sysfs_ops\<close>)\<close>

text \<open>
  \<open>btrfs_kobject_attr_show\<close>, \<open>btrfs_kobject_attr_store\<close>, \<open>btrfs_device_attr_show\<close>
  and \<open>btrfs_device_attr_store\<close>. The parameter \<open>call\<close> is the indirect call through
  the function pointer; \<open>kobj\<close> stands for the object that \<open>container_of\<close> recovers
  from the \<open>struct kobject *\<close>.
\<close>

definition btrfs_kobject_attr_store ::
  "('st \<Rightarrow> 'k \<Rightarrow> ('sh, 'st, 'z) btrfs_attr_scheme \<Rightarrow> string \<Rightarrow> nat \<Rightarrow> error + 'r) \<Rightarrow>
   'k \<Rightarrow> ('sh, 'st, 'z) btrfs_attr_scheme \<Rightarrow> string \<Rightarrow> nat \<Rightarrow> error + 'r" where
  "btrfs_kobject_attr_store call kobj btrfs_attr buf len =
     (case store btrfs_attr of
        None \<Rightarrow> Inl EIO
      | Some f \<Rightarrow> call f kobj btrfs_attr buf len)"

definition btrfs_kobject_attr_show ::
  "('sh \<Rightarrow> 'k \<Rightarrow> ('sh, 'st, 'z) btrfs_attr_scheme \<Rightarrow> error + shown) \<Rightarrow>
   'k \<Rightarrow> ('sh, 'st, 'z) btrfs_attr_scheme \<Rightarrow> error + shown" where
  "btrfs_kobject_attr_show call kobj btrfs_attr =
     (case show btrfs_attr of
        None \<Rightarrow> Inl EIO
      | Some f \<Rightarrow> call f kobj btrfs_attr)"

definition btrfs_device_attr_store ::
  "('st \<Rightarrow> 'k \<Rightarrow> ('sh, 'st, 'z) btrfs_attr_scheme \<Rightarrow> string \<Rightarrow> nat \<Rightarrow> error + 'r) \<Rightarrow>
   'k \<Rightarrow> ('sh, 'st, 'z) btrfs_attr_scheme \<Rightarrow> string \<Rightarrow> nat \<Rightarrow> error + 'r" where
  "btrfs_device_attr_store call kobj btrfs_attr buf len =
     (case store btrfs_attr of
        None \<Rightarrow> Inl EIO
      | Some f \<Rightarrow> call f kobj btrfs_attr buf len)"

definition btrfs_device_attr_show ::
  "('sh \<Rightarrow> 'k \<Rightarrow> ('sh, 'st, 'z) btrfs_attr_scheme \<Rightarrow> error + shown) \<Rightarrow>
   'k \<Rightarrow> ('sh, 'st, 'z) btrfs_attr_scheme \<Rightarrow> error + shown" where
  "btrfs_device_attr_show call kobj btrfs_attr =
     (case show btrfs_attr of
        None \<Rightarrow> Inl EIO
      | Some f \<Rightarrow> call f kobj btrfs_attr)"

subsection \<open>The counters of \<open>struct btrfs_device\<close>\<close>

text \<open>
  \<open>struct btrfs_device\<close> is declared in \<open>volumes.h\<close>. The file reads five of its
  members, each an \<open>atomic_t\<close> whose \<open>counter\<close> is an \<open>int\<close>.
\<close>

record btrfs_device =
  cnt_write_io_errs :: "32 word"
  cnt_read_io_errs :: "32 word"
  cnt_flush_io_errs :: "32 word"
  cnt_corruption_errs :: "32 word"
  cnt_generation_errs :: "32 word"

datatype dev_field =
  Cnt_write_io_errs | Cnt_read_io_errs | Cnt_flush_io_errs | Cnt_corruption_errs
  | Cnt_generation_errs

definition dev_fields :: "dev_field list" where
  "dev_fields =
     [Cnt_write_io_errs, Cnt_read_io_errs, Cnt_flush_io_errs, Cnt_corruption_errs,
      Cnt_generation_errs]"

fun counter :: "dev_field \<Rightarrow> btrfs_device \<Rightarrow> 32 word" where
  "counter Cnt_write_io_errs d = cnt_write_io_errs d"
| "counter Cnt_read_io_errs d = cnt_read_io_errs d"
| "counter Cnt_flush_io_errs d = cnt_flush_io_errs d"
| "counter Cnt_corruption_errs d = cnt_corruption_errs d"
| "counter Cnt_generation_errs d = cnt_generation_errs d"

text \<open>
  The layout of the structure is a parameter \<open>offsetof\<close>: the byte offset of each counter
  (\<open>offsetof(struct btrfs_device, f.counter)\<close>). \<open>load_int offsetof d off\<close> is the
  \<open>int\<close> read by \<open>*(int *)((char *)device + off)\<close>: the counter that lies at that
  offset, and no value when \<open>off\<close> is the offset of no counter (other bytes of the
  structure are not held here).
\<close>

definition load_int :: "(dev_field \<Rightarrow> nat) \<Rightarrow> btrfs_device \<Rightarrow> nat \<Rightarrow> 32 word option" where
  "load_int offsetof d off =
     map_option (\<lambda>f. counter f d) (find (\<lambda>f. offsetof f = off) dev_fields)"

subsection \<open>First design: the attributes of a device\<close>

text \<open>The show functions a first-design device attribute can point to.\<close>

datatype device_show_fn_v1 = Btrfs_device_show

definition btrfs_device_show ::
  "(dev_field \<Rightarrow> nat) \<Rightarrow> btrfs_device \<Rightarrow> ('sh, 'st) btrfs_device_attr_v1 \<Rightarrow> error + shown" where
  "btrfs_device_show offsetof device a =
     (case load_int offsetof device (offset a) of
        None \<Rightarrow> Inl Undefined_behaviour
      | Some device_attr \<Rightarrow> Inr (sprintf_d_nl device_attr))"

text \<open>The indirect call \<open>btrfs_attr->show(kobj, btrfs_attr, buf)\<close> of the first design.\<close>

fun call_show_v1 ::
  "(dev_field \<Rightarrow> nat) \<Rightarrow> device_show_fn_v1 \<Rightarrow> btrfs_device \<Rightarrow>
   ('sh, 'st) btrfs_device_attr_v1 \<Rightarrow> error + shown" where
  "call_show_v1 offsetof Btrfs_device_show kobj a = btrfs_device_show offsetof kobj a"

definition BTRFS_DEVICE_OFFSET_ATTR ::
  "(dev_field \<Rightarrow> nat) \<Rightarrow> string \<Rightarrow> nat \<Rightarrow> 'sh option \<Rightarrow> 'st option \<Rightarrow> dev_field \<Rightarrow>
   ('sh, 'st) btrfs_device_attr_v1" where
  "BTRFS_DEVICE_OFFSET_ATTR offsetof n m sh st elname =
     \<lparr>attr = \<lparr>name = n, mode = m\<rparr>, show = sh, store = st, offset = offsetof elname\<rparr>"

definition btrfs_dev_attr_cnt_write_io_errs ::
  "(dev_field \<Rightarrow> nat) \<Rightarrow> (device_show_fn_v1, 'st) btrfs_device_attr_v1" where
  "btrfs_dev_attr_cnt_write_io_errs offsetof =
     BTRFS_DEVICE_OFFSET_ATTR offsetof ''cnt_write_io_errs'' mode_0444
       (Some Btrfs_device_show) None Cnt_write_io_errs"

definition btrfs_dev_attr_cnt_read_io_errs ::
  "(dev_field \<Rightarrow> nat) \<Rightarrow> (device_show_fn_v1, 'st) btrfs_device_attr_v1" where
  "btrfs_dev_attr_cnt_read_io_errs offsetof =
     BTRFS_DEVICE_OFFSET_ATTR offsetof ''cnt_read_io_errs'' mode_0444
       (Some Btrfs_device_show) None Cnt_read_io_errs"

definition btrfs_dev_attr_cnt_flush_io_errs ::
  "(dev_field \<Rightarrow> nat) \<Rightarrow> (device_show_fn_v1, 'st) btrfs_device_attr_v1" where
  "btrfs_dev_attr_cnt_flush_io_errs offsetof =
     BTRFS_DEVICE_OFFSET_ATTR offsetof ''cnt_flush_io_errs'' mode_0444
       (Some Btrfs_device_show) None Cnt_flush_io_errs"

definition btrfs_dev_attr_cnt_corruption_errs ::
  "(dev_field \<Rightarrow> nat) \<Rightarrow> (device_show_fn_v1, 'st) btrfs_device_attr_v1" where
  "btrfs_dev_attr_cnt_corruption_errs offsetof =
     BTRFS_DEVICE_OFFSET_ATTR offsetof ''cnt_corruption_errs'' mode_0444
       (Some Btrfs_device_show) None Cnt_corruption_errs"

definition btrfs_dev_attr_cnt_generation_errs ::
  "(dev_field \<Rightarrow> nat) \<Rightarrow> (device_show_fn_v1, 'st) btrfs_device_attr_v1" where
  "btrfs_dev_attr_cnt_generation_errs offsetof =
     BTRFS_DEVICE_OFFSET_ATTR offsetof ''cnt_generation_errs'' mode_0444
       (Some Btrfs_device_show) None Cnt_generation_errs"

text \<open>The attribute of the first design that is declared for a counter.\<close>

fun btrfs_dev_attr :: "(dev_field \<Rightarrow> nat) \<Rightarrow> dev_field \<Rightarrow> (device_show_fn_v1, 'st) btrfs_device_attr_v1" where
  "btrfs_dev_attr offsetof Cnt_write_io_errs = btrfs_dev_attr_cnt_write_io_errs offsetof"
| "btrfs_dev_attr offsetof Cnt_read_io_errs = btrfs_dev_attr_cnt_read_io_errs offsetof"
| "btrfs_dev_attr offsetof Cnt_flush_io_errs = btrfs_dev_attr_cnt_flush_io_errs offsetof"
| "btrfs_dev_attr offsetof Cnt_corruption_errs = btrfs_dev_attr_cnt_corruption_errs offsetof"
| "btrfs_dev_attr offsetof Cnt_generation_errs = btrfs_dev_attr_cnt_generation_errs offsetof"

text \<open>The name each counter's attribute is declared under.\<close>

fun field_name :: "dev_field \<Rightarrow> string" where
  "field_name Cnt_write_io_errs = ''cnt_write_io_errs''"
| "field_name Cnt_read_io_errs = ''cnt_read_io_errs''"
| "field_name Cnt_flush_io_errs = ''cnt_flush_io_errs''"
| "field_name Cnt_corruption_errs = ''cnt_corruption_errs''"
| "field_name Cnt_generation_errs = ''cnt_generation_errs''"

definition btrfs_device_default_attrs_v1 ::
  "(dev_field \<Rightarrow> nat) \<Rightarrow> (device_show_fn_v1, 'st) btrfs_device_attr_v1 list" where
  "btrfs_device_default_attrs_v1 offsetof =
     [btrfs_dev_attr_cnt_write_io_errs offsetof,
      btrfs_dev_attr_cnt_read_io_errs offsetof,
      btrfs_dev_attr_cnt_flush_io_errs offsetof,
      btrfs_dev_attr_cnt_corruption_errs offsetof,
      btrfs_dev_attr_cnt_generation_errs offsetof]"

text \<open>Reading an attribute of a first-design device: \<open>btrfs_device_sysfs_ops.show\<close>.\<close>

definition read_device_v1 ::
  "(dev_field \<Rightarrow> nat) \<Rightarrow> btrfs_device \<Rightarrow> (device_show_fn_v1, 'st) btrfs_device_attr_v1 \<Rightarrow>
   error + shown" where
  "read_device_v1 offsetof device a =
     btrfs_device_attr_show (call_show_v1 offsetof) device a"

subsection \<open>Kernel objects\<close>

text \<open>
  Modelled from the spec: the kobject core (\<open>kobject_init_and_add\<close>, \<open>kobject_get\<close>,
  \<open>kobject_put\<close>, \<open>kset_create_and_add\<close>), completions, the allocator and \<open>printk\<close>
  are kernel code outside the file. What follows is their behaviour as far as the file
  relies on it, after the spec's data model (section 3): the \<open>refcount\<close> is a "shared
  integer"; \<open>destroy\<close> is a "callback invoked exactly once when the last reference to a
  node of this type is released"; the teardown signal is "a one-shot synchronization
  primitive"; and after section 4.3 and section 8: registration fails on "name collision,
  allocation failure", and a duplicate name under the same parent "leaves the existing
  entry untouched".
\<close>

type_synonym addr = nat

text \<open>The release functions of the file, and the \<open>struct kobj_type\<close> objects that point
  to them (a pointer to one of these static objects is its tag).\<close>

datatype release_fn =
  Btrfs_kobject_release_v1 | Btrfs_device_release_v1
  | Btrfs_kobject_release_v2 | Btrfs_device_release_v2

datatype kobj_type =
  Btrfs_ktype_device_dir_v1 | Btrfs_ktype_device_v1
  | Btrfs_ktype_info | Btrfs_ktype_health | Btrfs_ktype_devices
  | Btrfs_ktype_device_dir_v2 | Btrfs_ktype_device_v2

fun release :: "kobj_type \<Rightarrow> release_fn" where
  "release Btrfs_ktype_device_dir_v1 = Btrfs_kobject_release_v1"
| "release Btrfs_ktype_device_v1 = Btrfs_device_release_v1"
| "release Btrfs_ktype_info = Btrfs_kobject_release_v2"
| "release Btrfs_ktype_health = Btrfs_kobject_release_v2"
| "release Btrfs_ktype_devices = Btrfs_kobject_release_v2"
| "release Btrfs_ktype_device_dir_v2 = Btrfs_kobject_release_v2"
| "release Btrfs_ktype_device_v2 = Btrfs_device_release_v2"

text \<open>
  The \<open>ktype\<close> pointer of a kobject: the address of one of the static objects, or the
  address of the by-value parameter \<open>ktype\<close> of \<open>btrfs_kobject_create\<close> (second
  design), which holds a copy of a type while that call runs and is dead storage once it
  has returned. \<open>ktype_at\<close> reads the structure through the pointer; there is nothing to
  read through a dangling one.
\<close>

datatype ktype_ptr = Static kobj_type | Param kobj_type | Dangling

fun ktype_at :: "ktype_ptr \<Rightarrow> kobj_type option" where
  "ktype_at (Static t) = Some t"
| "ktype_at (Param t) = Some t"
| "ktype_at Dangling = None"

text \<open>\<open>struct kobject\<close>, as far as the file and the reference counting use it.
  \<open>kref\<close> is an \<open>atomic_t\<close>: a decrement of 0 gives -1.\<close>

record kobject =
  k_name :: string
  parent :: "addr option"
  kset :: "addr option"
  ktype :: "ktype_ptr option"
  kref :: int
  state_initialized :: bool
  state_in_sysfs :: bool

text \<open>
  The structure a kobject is embedded in (\<open>struct btrfs_kobject\<close>, or the
  \<open>struct btrfs_device\<close> or \<open>struct btrfs_fs_info\<close> of the storage engine), as far as the
  lifecycle functions touch it: the kobject, which is its first member in
  \<open>struct btrfs_kobject\<close>, and the completion of the first design
  (\<open>btrfs_kobj_unregister\<close>, \<open>btrfs_device_unregister\<close>), held as its counter \<open>done\<close>.
  The second design has no completion and never touches \<open>unregister\<close>.
\<close>

record node =
  kobj :: kobject
  unregister :: nat

text \<open>A directory of the namespace: the root, or the directory of the kobject or kset at
  an address.\<close>

datatype dir = Root | Dir addr

text \<open>
  The state of the kernel as the file sees it. \<open>objs\<close> holds the live objects,
  \<open>sysfs\<close> the entries of the namespace, \<open>allocs\<close> the outcomes of the coming
  allocation attempts (when the list is used up, allocations succeed), \<open>brk\<close> the next
  fresh address, \<open>klog\<close> the \<open>printk\<close> output. \<open>released\<close> counts, per address, the
  calls of a release function; \<open>fault\<close> is set when an object is used that was freed or
  never allocated. The last four fields are the global variables of the file; the second
  design's \<open>btrfs_devices\<close>, \<open>btrfs_health\<close> and \<open>btrfs_info\<close> are pointers.
\<close>

record world =
  objs :: "addr \<Rightarrow> node option"
  sysfs :: "dir \<times> string \<Rightarrow> addr option"
  allocs :: "bool list"
  brk :: addr
  klog :: "string list"
  released :: "addr \<Rightarrow> nat"
  fault :: bool
  btrfs_kset :: "addr option"
  btrfs_devices :: "addr option"
  btrfs_health :: "addr option"
  btrfs_info :: "addr option"

definition alloc :: "world \<Rightarrow> bool \<times> world" where
  "alloc w = (case allocs w of [] \<Rightarrow> (True, w) | b # bs \<Rightarrow> (b, w\<lparr>allocs := bs\<rparr>))"

definition zeroed :: node where
  "zeroed = \<lparr>kobj = \<lparr>k_name = [], parent = None, kset = None, ktype = None, kref = 0,
     state_initialized = False, state_in_sysfs = False\<rparr>, unregister = 0\<rparr>"

definition kzalloc :: "world \<Rightarrow> addr option \<times> world" where
  "kzalloc w =
     (case alloc w of
        (False, w') \<Rightarrow> (None, w')
      | (True, w') \<Rightarrow>
          (Some (brk w'), w'\<lparr>objs := (objs w')(brk w' \<mapsto> zeroed), brk := brk w' + 1\<rparr>))"

definition kfree :: "world \<Rightarrow> addr \<Rightarrow> world" where
  "kfree w a = w\<lparr>objs := (objs w)(a := None)\<rparr>"

definition printk :: "world \<Rightarrow> string \<Rightarrow> world" where
  "printk w s = w\<lparr>klog := klog w @ [s]\<rparr>"

text \<open>Updating the kobject of the node at an address; a use of a dead object is a fault.\<close>

definition upd_kobj :: "world \<Rightarrow> addr \<Rightarrow> (kobject \<Rightarrow> kobject) \<Rightarrow> world" where
  "upd_kobj w k f =
     (case objs w k of
        None \<Rightarrow> w\<lparr>fault := True\<rparr>
      | Some n \<Rightarrow> w\<lparr>objs := (objs w)(k \<mapsto> n\<lparr>kobj := f (kobj n)\<rparr>)\<rparr>)"

definition upd_unregister :: "world \<Rightarrow> addr \<Rightarrow> (nat \<Rightarrow> nat) \<Rightarrow> world" where
  "upd_unregister w k f =
     (case objs w k of
        None \<Rightarrow> w\<lparr>fault := True\<rparr>
      | Some n \<Rightarrow> w\<lparr>objs := (objs w)(k \<mapsto> n\<lparr>unregister := f (unregister n)\<rparr>)\<rparr>)"

definition init_completion :: "world \<Rightarrow> addr \<Rightarrow> world" where
  "init_completion w k = upd_unregister w k (\<lambda>_. 0)"

text \<open>Modelled from the spec: \<open>complete\<close> adds one to \<open>done\<close>;
  \<open>wait_for_completion\<close> returns once \<open>done\<close> is positive, and takes one off it
  (section 4.3: "the call blocks the invoking thread until \<open>teardown_signal\<close> is
  satisfied"). \<open>None\<close>: the caller sleeps.\<close>

definition complete :: "world \<Rightarrow> addr \<Rightarrow> world" where
  "complete w k = upd_unregister w k Suc"

definition wait_for_completion :: "world \<Rightarrow> addr \<Rightarrow> world option" where
  "wait_for_completion w k =
     (case objs w k of
        None \<Rightarrow> Some (w\<lparr>fault := True\<rparr>)
      | Some n \<Rightarrow>
          if unregister n = 0 then None
          else Some (upd_unregister w k (\<lambda>d. d - 1)))"

definition kobject_get :: "world \<Rightarrow> addr \<Rightarrow> world" where
  "kobject_get w k = upd_kobj w k (\<lambda>ko. ko\<lparr>kref := kref ko + 1\<rparr>)"

definition kobject_init :: "world \<Rightarrow> addr \<Rightarrow> ktype_ptr \<Rightarrow> world" where
  "kobject_init w k t =
     upd_kobj w k (\<lambda>ko. ko\<lparr>ktype := Some t, kref := 1, state_initialized := True,
       state_in_sysfs := False\<rparr>)"

text \<open>The directory a kobject is entered in: that of its parent, the root without one.\<close>

definition dir_of :: "kobject \<Rightarrow> dir" where
  "dir_of ko = (case parent ko of None \<Rightarrow> Root | Some p \<Rightarrow> Dir p)"

text \<open>
  Modelled from the spec: \<open>kobject_add\<close> with the format \<open>"%s"\<close>. The name is set (an
  allocation, which may fail), a kobject without a parent is put under its kset, and the
  entry is made unless the directory has one of that name; then the kobject is left
  without a parent and the existing entry is untouched.
\<close>

definition kobject_add :: "world \<Rightarrow> addr \<Rightarrow> addr option \<Rightarrow> string \<Rightarrow> (error + unit) \<times> world" where
  "kobject_add w k par nm =
     (case objs w k of
        None \<Rightarrow> (Inl Undefined_behaviour, w\<lparr>fault := True\<rparr>)
      | Some n \<Rightarrow>
          (case alloc w of
             (False, w1) \<Rightarrow> (Inl ENOMEM, w1)
           | (True, w1) \<Rightarrow>
               let ko = (kobj n)\<lparr>k_name := nm,
                          parent := (case par of None \<Rightarrow> kset (kobj n) | Some p \<Rightarrow> Some p)\<rparr>
               in if sysfs w1 (dir_of ko, nm) \<noteq> None
                  then (Inl EEXIST, upd_kobj w1 k (\<lambda>_. ko\<lparr>parent := None\<rparr>))
                  else (Inr (),
                        (upd_kobj w1 k (\<lambda>_. ko\<lparr>state_in_sysfs := True\<rparr>))
                          \<lparr>sysfs := (sysfs w1)((dir_of ko, nm) \<mapsto> k)\<rparr>)))"

definition kobject_init_and_add ::
  "world \<Rightarrow> addr \<Rightarrow> ktype_ptr \<Rightarrow> addr option \<Rightarrow> string \<Rightarrow> (error + unit) \<times> world" where
  "kobject_init_and_add w k t par nm = kobject_add (kobject_init w k t) k par nm"

definition kobject_del :: "world \<Rightarrow> addr \<Rightarrow> world" where
  "kobject_del w k =
     (case objs w k of
        None \<Rightarrow> w\<lparr>fault := True\<rparr>
      | Some n \<Rightarrow>
          (upd_kobj w k (\<lambda>ko. ko\<lparr>state_in_sysfs := False\<rparr>))
            \<lparr>sysfs := (sysfs w)((dir_of (kobj n), k_name (kobj n)) := None)\<rparr>)"

text \<open>\<open>kset_create_and_add("btrfs", NULL, fs_kobj)\<close>: a fresh kset, or \<open>NULL\<close>.\<close>

definition kset_create_and_add :: "world \<Rightarrow> string \<Rightarrow> addr option \<times> world" where
  "kset_create_and_add w nm =
     (case kzalloc w of
        (None, w') \<Rightarrow> (None, w')
      | (Some a, w') \<Rightarrow>
          (Some a, upd_kobj w' a (\<lambda>ko. ko\<lparr>k_name := nm, kref := 1, state_initialized := True\<rparr>)))"

subsection \<open>The release functions and \<open>kobject_put\<close>\<close>

text \<open>First design: both release functions complete the node's completion.\<close>

definition btrfs_kobject_release_v1 :: "world \<Rightarrow> addr \<Rightarrow> world" where
  "btrfs_kobject_release_v1 w k = complete w k"

definition btrfs_device_release_v1 :: "world \<Rightarrow> addr \<Rightarrow> world" where
  "btrfs_device_release_v1 w k = complete w k"

text \<open>Second design: a directory node is freed.\<close>

definition btrfs_kobject_release_v2 :: "world \<Rightarrow> addr \<Rightarrow> world" where
  "btrfs_kobject_release_v2 w k = kfree w k"

text \<open>
  Modelled from the spec: \<open>kobject_put\<close> and \<open>kobject_cleanup\<close>. \<open>kobject_put\<close>
  (nothing for \<open>NULL\<close>) decrements the count and, when the result is 0, cleans the
  kobject up: it leaves the namespace and the release function of its type is called
  (\<open>released\<close> counts the call). The type is read through the \<open>ktype\<close> pointer first,
  which is undefined when the pointer dangles. From the file: the second design's
  \<open>btrfs_device_release\<close>, which calls \<open>kobject_put\<close> in turn, so that the three are
  defined together.
\<close>

function kobject_put :: "world \<Rightarrow> addr option \<Rightarrow> world"
  and kobject_cleanup :: "world \<Rightarrow> addr \<Rightarrow> world"
  and btrfs_device_release_v2 :: "world \<Rightarrow> addr \<Rightarrow> world"
where
  "kobject_put w kp =
     (case kp of
        None \<Rightarrow> w
      | Some k \<Rightarrow>
          (case objs w k of
             None \<Rightarrow> w\<lparr>fault := True\<rparr>
           | Some n \<Rightarrow>
               if kref (kobj n) - 1 = 0
               then kobject_cleanup (upd_kobj w k (\<lambda>ko. ko\<lparr>kref := kref ko - 1\<rparr>)) k
               else upd_kobj w k (\<lambda>ko. ko\<lparr>kref := kref ko - 1\<rparr>)))"
| "kobject_cleanup w k =
     (case objs w k of
        None \<Rightarrow> w\<lparr>fault := True\<rparr>
      | Some n \<Rightarrow>
          (case ktype (kobj n) of
             None \<Rightarrow> (if state_in_sysfs (kobj n) then kobject_del w k else w)
           | Some p \<Rightarrow>
               (case ktype_at p of
                  None \<Rightarrow> w\<lparr>fault := True\<rparr>
                | Some t \<Rightarrow>
                    (case release t of
                       Btrfs_kobject_release_v1 \<Rightarrow>
                         btrfs_kobject_release_v1
                           ((if state_in_sysfs (kobj n) then kobject_del w k else w)
                              \<lparr>released := (released w)(k := Suc (released w k))\<rparr>) k
                     | Btrfs_device_release_v1 \<Rightarrow>
                         btrfs_device_release_v1
                           ((if state_in_sysfs (kobj n) then kobject_del w k else w)
                              \<lparr>released := (released w)(k := Suc (released w k))\<rparr>) k
                     | Btrfs_kobject_release_v2 \<Rightarrow>
                         btrfs_kobject_release_v2
                           ((if state_in_sysfs (kobj n) then kobject_del w k else w)
                              \<lparr>released := (released w)(k := Suc (released w k))\<rparr>) k
                     | Btrfs_device_release_v2 \<Rightarrow>
                         btrfs_device_release_v2
                           ((if state_in_sysfs (kobj n) then kobject_del w k else w)
                              \<lparr>released := (released w)(k := Suc (released w k))\<rparr>) k))))"
| "btrfs_device_release_v2 w k = kobject_put w (Some k)"
  by pat_completeness auto

termination
  by (relation "measure (\<lambda>x. case x of
      Inl (w, kp) \<Rightarrow>
        (case kp of None \<Rightarrow> 0
         | Some k \<Rightarrow> (case objs w k of None \<Rightarrow> 0
             | Some n \<Rightarrow> if kref (kobj n) = 1 then 3 else 0))
    | Inr (Inl (w, k)) \<Rightarrow>
        2 + (case objs w k of None \<Rightarrow> 0 | Some n \<Rightarrow> if kref (kobj n) = 1 then 3 else 0)
    | Inr (Inr (w, k)) \<Rightarrow>
        1 + (case objs w k of None \<Rightarrow> 0
             | Some n \<Rightarrow> if kref (kobj n) = 1 then 3 else (0::nat)))")
    (auto simp: upd_kobj_def kobject_del_def split: option.splits)

declare kobject_put.simps [simp del]
declare kobject_cleanup.simps [simp del]
declare btrfs_device_release_v2.simps [simp del]

subsection \<open>C strings\<close>

text \<open>
  \<open>strcpy\<close> and \<open>strsep\<close> are functions of the C library (the kernel's
  \<open>lib/string.c\<close>), outside the file; they are given by their documented behaviour. A C
  string is held as the list of its characters before the terminating NUL. \<open>strcpy\<close>
  into an array of \<open>n\<close> bytes stores \<open>length src + 1\<close> bytes; a longer source writes
  past the array.
\<close>

definition strcpy :: "nat \<Rightarrow> string \<Rightarrow> error + string" where
  "strcpy n src = (if length src + 1 \<le> n then Inr src else Inl Undefined_behaviour)"

text \<open>
  \<open>strsep(&ptr, delim)\<close>: with \<open>ptr\<close> \<open>NULL\<close> it returns \<open>NULL\<close>; otherwise it
  returns the old \<open>ptr\<close>, now ended at the first delimiter, and moves \<open>ptr\<close> behind
  that delimiter, or sets it to \<open>NULL\<close> when there is none. The result is the pair of the
  returned token and the new \<open>ptr\<close>.
\<close>

definition strsep :: "string option \<Rightarrow> string \<Rightarrow> string option \<times> string option" where
  "strsep ptr delim =
     (case ptr of
        None \<Rightarrow> (None, None)
      | Some s \<Rightarrow>
          (Some (takeWhile (\<lambda>c. c \<notin> set delim) s),
           (case dropWhile (\<lambda>c. c \<notin> set delim) s of
              [] \<Rightarrow> None
            | _ # rest \<Rightarrow> Some rest)))"

text \<open>\<open>printk\<close> and \<open>kobject_init_and_add\<close> print a \<open>char *\<close> with \<open>%s\<close>.\<close>

definition fmt_s :: "string option \<Rightarrow> string" where
  "fmt_s p = (case p of None \<Rightarrow> ''(null)'' | Some s \<Rightarrow> s)"

subsection \<open>First design: lifecycle\<close>

text \<open>The static object \<open>btrfs_devices\<close> of the first design has a fixed address.\<close>

definition btrfs_devices_v1 :: addr where
  "btrfs_devices_v1 = 0"

definition btrfs_kobject_init_sysfs_v1 :: "world \<Rightarrow> (error + unit) \<times> world" where
  "btrfs_kobject_init_sysfs_v1 w =
     (let w1 = upd_kobj w btrfs_devices_v1 (\<lambda>ko. ko\<lparr>kset := btrfs_kset w\<rparr>);
          w2 = init_completion w1 btrfs_devices_v1
      in case kobject_init_and_add w2 btrfs_devices_v1 (Static Btrfs_ktype_device_dir_v1) None
                ''devices'' of
           (Inl e, w3) \<Rightarrow> (Inl EINVAL, kobject_put w3 (Some btrfs_devices_v1))
         | (Inr u, w3) \<Rightarrow> (Inr (), w3))"

definition btrfs_init_sysfs_v1 :: "world \<Rightarrow> (error + unit) \<times> world" where
  "btrfs_init_sysfs_v1 w =
     (case kset_create_and_add w ''btrfs'' of
        (None, w1) \<Rightarrow> (Inl ENOMEM, w1\<lparr>btrfs_kset := None\<rparr>)
      | (Some a, w1) \<Rightarrow> btrfs_kobject_init_sysfs_v1 (w1\<lparr>btrfs_kset := Some a\<rparr>))"

lemma strsep_measure:
  "strsep ptr d = (Some c, ptr') \<Longrightarrow>
   (case ptr' of None \<Rightarrow> 0 | Some s \<Rightarrow> Suc (length s))
     < (case ptr of None \<Rightarrow> 0 | Some s \<Rightarrow> Suc (length s))"
proof (cases ptr)
  case None
  assume "strsep ptr d = (Some c, ptr')"
  with None show ?thesis by (simp add: strsep_def)
next
  case (Some s)
  assume a: "strsep ptr d = (Some c, ptr')"
  show ?thesis
  proof (cases "dropWhile (\<lambda>c. c \<notin> set d) s")
    case Nil
    with a Some show ?thesis by (simp add: strsep_def)
  next
    case (Cons x rest)
    have "length (dropWhile (\<lambda>c. c \<notin> set d) s) \<le> length s"
      by (rule length_dropWhile_le)
    with Cons have "length rest < length s" by simp
    with a Some Cons show ?thesis by (auto simp add: strsep_def)
  qed
qed

text \<open>
  The loop \<open>for (ptr = device_name; (curr = strsep(&ptr, "/")) != NULL; prev = curr);\<close>
  of \<open>btrfs_create_device\<close>, from the values of \<open>ptr\<close> and \<open>prev\<close> before a test of
  its condition to the final value of \<open>prev\<close>.
\<close>

function strsep_loop :: "string option \<Rightarrow> string option \<Rightarrow> string option" where
  "strsep_loop ptr prev =
     (case strsep ptr ''/'' of
        (None, ptr') \<Rightarrow> prev
      | (Some cur, ptr') \<Rightarrow> strsep_loop ptr' (Some cur))"
  by pat_completeness auto

termination
  apply (relation "measure (\<lambda>(ptr, prev). case ptr of None \<Rightarrow> 0 | Some s \<Rightarrow> Suc (length s))")
   apply simp
  apply (simp only: in_measure prod.case)
  apply (rule strsep_measure)
  apply (erule sym)
  done

declare strsep_loop.simps [simp del]

text \<open>\<open>btrfs_create_device\<close> of the first design. \<open>device_kobj\<close> is the address of the
  device's kobject, and so of its \<open>btrfs_device_unregister\<close>.\<close>

definition btrfs_create_device_v1 :: "world \<Rightarrow> addr \<Rightarrow> string \<Rightarrow> (error + unit) \<times> world" where
  "btrfs_create_device_v1 w device_kobj dev_name =
     (case strcpy 64 dev_name of
        Inl e \<Rightarrow> (Inl e, w)
      | Inr device_name \<Rightarrow>
          let prev = strsep_loop (Some device_name) None;
              w1 = init_completion w device_kobj
          in case kobject_init_and_add w1 device_kobj (Static Btrfs_ktype_device_v1)
                    (Some btrfs_devices_v1) (fmt_s prev) of
               (Inl e, w2) \<Rightarrow> (Inl EINVAL, kobject_put w2 (Some device_kobj))
             | (Inr u, w2) \<Rightarrow>
                 (Inr (), printk w2 (''btrfs: added sysfs device entry: '' @ fmt_s prev)))"

text \<open>\<open>btrfs_kobject_destroy\<close> and \<open>btrfs_kill_device\<close> of the first design; \<open>None\<close>
  when the caller sleeps in \<open>wait_for_completion\<close>.\<close>

definition btrfs_kobject_destroy_v1 :: "world \<Rightarrow> addr \<Rightarrow> world option" where
  "btrfs_kobject_destroy_v1 w btrfs_kobj =
     wait_for_completion (kobject_put w (Some btrfs_kobj)) btrfs_kobj"

definition btrfs_kill_device_v1 :: "world \<Rightarrow> addr \<Rightarrow> world option" where
  "btrfs_kill_device_v1 w device_kobj =
     wait_for_completion (kobject_put w (Some device_kobj)) device_kobj"

subsection \<open>Second design: lifecycle\<close>

text \<open>
  \<open>btrfs_kobject_create\<close>. The type is passed by value, and the kobject is registered
  with \<open>&ktype\<close>, the address of that parameter: a kobject_put inside the call reads a
  live copy of the type, and when the call returns the pointer the new node keeps is
  dangling (\<open>param_dies\<close>). With a parent given, \<open>parent_kobj\<close> is computed and not
  used: the call of \<open>kobject_init_and_add\<close> passes \<open>NULL\<close>, and the kset is not set.
\<close>

definition param_dies :: "world \<Rightarrow> addr \<Rightarrow> world" where
  "param_dies w a =
     (case objs w a of
        None \<Rightarrow> w
      | Some n \<Rightarrow>
          (case ktype (kobj n) of
             Some (Param t) \<Rightarrow> w\<lparr>objs := (objs w)(a \<mapsto> n\<lparr>kobj := (kobj n)\<lparr>ktype := Some Dangling\<rparr>\<rparr>)\<rparr>
           | _ \<Rightarrow> w))"

definition btrfs_kobject_create ::
  "world \<Rightarrow> string \<Rightarrow> kobj_type \<Rightarrow> addr option \<Rightarrow> addr option \<times> world" where
  "btrfs_kobject_create w nm t btrfs_parent =
     (case kzalloc w of
        (None, w1) \<Rightarrow> (None, w1)
      | (Some btrfs_kobj, w1) \<Rightarrow>
          let w2 = (case btrfs_parent of
                      Some p \<Rightarrow> w1
                    | None \<Rightarrow> upd_kobj w1 btrfs_kobj (\<lambda>ko. ko\<lparr>kset := btrfs_kset w1\<rparr>))
          in case kobject_init_and_add w2 btrfs_kobj (Param t) None nm of
               (Inl e, w3) \<Rightarrow>
                 (None, param_dies (kobject_put w3 (Some btrfs_kobj)) btrfs_kobj)
             | (Inr u, w3) \<Rightarrow>
                 (Some btrfs_kobj,
                  param_dies
                    (printk w3 (''btrfs: About to notify the userspace abt this'' @ [newline]))
                    btrfs_kobj))"

text \<open>\<open>btrfs_kobject_destroy\<close> of the second design. The kobject is the first member of
  \<open>struct btrfs_kobject\<close>, so for a \<open>NULL\<close> argument \<open>kobject_put\<close> gets \<open>NULL\<close>.\<close>

definition btrfs_kobject_destroy_v2 :: "world \<Rightarrow> addr option \<Rightarrow> world" where
  "btrfs_kobject_destroy_v2 w btrfs_kobj = kobject_put w btrfs_kobj"

text \<open>The error labels of \<open>btrfs_static_init_sysfs\<close>; each falls through to the next.\<close>

definition btrfs_devices_error :: "world \<Rightarrow> (error + unit) \<times> world" where
  "btrfs_devices_error w = (Inl EINVAL, w)"

definition btrfs_health_error :: "world \<Rightarrow> (error + unit) \<times> world" where
  "btrfs_health_error w = btrfs_devices_error (btrfs_kobject_destroy_v2 w (btrfs_health w))"

definition btrfs_info_error :: "world \<Rightarrow> (error + unit) \<times> world" where
  "btrfs_info_error w = btrfs_health_error (btrfs_kobject_destroy_v2 w (btrfs_info w))"

definition btrfs_static_init_sysfs :: "world \<Rightarrow> (error + unit) \<times> world" where
  "btrfs_static_init_sysfs w =
     (case btrfs_kobject_create w ''devices'' Btrfs_ktype_device_dir_v2 None of
        (d, w1') \<Rightarrow>
          let w1 = w1'\<lparr>btrfs_devices := d\<rparr> in
          if btrfs_devices w1 = None then btrfs_devices_error w1
          else
            (case btrfs_kobject_create w1 ''health'' Btrfs_ktype_health None of
               (h, w2') \<Rightarrow>
                 let w2 = w2'\<lparr>btrfs_health := h\<rparr> in
                 if btrfs_health w2 = None then btrfs_health_error w2
                 else
                   (case btrfs_kobject_create w2 ''info'' Btrfs_ktype_info None of
                      (i, w3') \<Rightarrow>
                        let w3 = w3'\<lparr>btrfs_info := i\<rparr> in
                        if btrfs_info w3 = None then btrfs_info_error w3
                        else (Inr (), w3))))"

definition btrfs_init_sysfs_v2 :: "world \<Rightarrow> (error + unit) \<times> world" where
  "btrfs_init_sysfs_v2 w =
     (case kset_create_and_add w ''btrfs'' of
        (None, w1) \<Rightarrow> (Inl ENOMEM, w1\<lparr>btrfs_kset := None\<rparr>)
      | (Some a, w1) \<Rightarrow> btrfs_static_init_sysfs (w1\<lparr>btrfs_kset := Some a\<rparr>))"

text \<open>\<open>btrfs_create_device\<close> of the second design; the parent is
  \<open>&btrfs_devices->kobj\<close>.\<close>

definition btrfs_create_device_v2 :: "world \<Rightarrow> addr \<Rightarrow> string \<Rightarrow> (error + unit) \<times> world" where
  "btrfs_create_device_v2 w super_kobj label =
     (case objs w super_kobj of
        None \<Rightarrow> (Inl Undefined_behaviour, w\<lparr>fault := True\<rparr>)
      | Some n \<Rightarrow>
          if state_initialized (kobj n) then (Inr (), kobject_get w super_kobj)
          else (case kobject_init_and_add w super_kobj (Static Btrfs_ktype_device_v2)
                       (btrfs_devices w) label of
                  (Inl e, w1) \<Rightarrow> (Inl EINVAL, kobject_put w1 (Some super_kobj))
                | (Inr u, w1) \<Rightarrow> (Inr (), w1)))"

definition btrfs_kill_device_v2 :: "world \<Rightarrow> addr \<Rightarrow> world" where
  "btrfs_kill_device_v2 w super_kobj = kobject_put w (Some super_kobj)"

subsection \<open>Second design: the attributes\<close>

text \<open>
  The show functions of a second-design device. \<open>device_stats\<close> finds the device through
  \<open>btrfs_find_device\<close>, which is not part of the file: its result for a kobject is the
  parameter \<open>device_stats\<close>, \<open>None\<close> for \<open>NULL\<close>, which the show functions dereference.
\<close>

datatype device_show_fn_v2 =
  Device_write_io_err_show | Device_read_io_err_show | Device_flush_io_err_show
  | Device_corruption_err_show | Device_generation_err_show

definition device_write_io_err_show :: "('k \<Rightarrow> btrfs_device option) \<Rightarrow> 'k \<Rightarrow> error + shown" where
  "device_write_io_err_show device_stats btrfs_kobj =
     (case device_stats btrfs_kobj of
        None \<Rightarrow> Inl Undefined_behaviour
      | Some device \<Rightarrow> Inr (sprintf_d_nl (cnt_write_io_errs device)))"

definition device_read_io_err_show :: "('k \<Rightarrow> btrfs_device option) \<Rightarrow> 'k \<Rightarrow> error + shown" where
  "device_read_io_err_show device_stats btrfs_kobj =
     (case device_stats btrfs_kobj of
        None \<Rightarrow> Inl Undefined_behaviour
      | Some device \<Rightarrow> Inr (sprintf_d_nl (cnt_read_io_errs device)))"

definition device_flush_io_err_show :: "('k \<Rightarrow> btrfs_device option) \<Rightarrow> 'k \<Rightarrow> error + shown" where
  "device_flush_io_err_show device_stats btrfs_kobj =
     (case device_stats btrfs_kobj of
        None \<Rightarrow> Inl Undefined_behaviour
      | Some device \<Rightarrow> Inr (sprintf_d_nl (cnt_flush_io_errs device)))"

definition device_corruption_err_show :: "('k \<Rightarrow> btrfs_device option) \<Rightarrow> 'k \<Rightarrow> error + shown" where
  "device_corruption_err_show device_stats btrfs_kobj =
     (case device_stats btrfs_kobj of
        None \<Rightarrow> Inl Undefined_behaviour
      | Some device \<Rightarrow> Inr (sprintf_d_nl (cnt_corruption_errs device)))"

definition device_generation_err_show :: "('k \<Rightarrow> btrfs_device option) \<Rightarrow> 'k \<Rightarrow> error + shown" where
  "device_generation_err_show device_stats btrfs_kobj =
     (case device_stats btrfs_kobj of
        None \<Rightarrow> Inl Undefined_behaviour
      | Some device \<Rightarrow> Inr (sprintf_d_nl (cnt_generation_errs device)))"

fun call_show_v2 ::
  "('k \<Rightarrow> btrfs_device option) \<Rightarrow> device_show_fn_v2 \<Rightarrow> 'k \<Rightarrow>
   (device_show_fn_v2, 'st) btrfs_attr \<Rightarrow> error + shown" where
  "call_show_v2 ds Device_write_io_err_show k a = device_write_io_err_show ds k"
| "call_show_v2 ds Device_read_io_err_show k a = device_read_io_err_show ds k"
| "call_show_v2 ds Device_flush_io_err_show k a = device_flush_io_err_show ds k"
| "call_show_v2 ds Device_corruption_err_show k a = device_corruption_err_show ds k"
| "call_show_v2 ds Device_generation_err_show k a = device_generation_err_show ds k"

text \<open>\<open>BTRFS_ATTR\<close> and \<open>BTRFS_DEVICE_ATTR\<close> both expand to \<open>__ATTR\<close>.\<close>

definition btrfs_attr_num_devices :: "('sh, 'st) btrfs_attr" where
  "btrfs_attr_num_devices = ATTR ''num_devices'' mode_0444 None None"

definition btrfs_attr_dummy :: "('sh, 'st) btrfs_attr" where
  "btrfs_attr_dummy = ATTR ''dummy'' mode_0444 None None"

definition btrfs_attr_dummy1 :: "('sh, 'st) btrfs_attr" where
  "btrfs_attr_dummy1 = ATTR ''dummy1'' mode_0444 None None"

definition btrfs_attr_uuid :: "(device_show_fn_v2, 'st) btrfs_attr" where
  "btrfs_attr_uuid = ATTR ''uuid'' mode_0444 None None"

definition btrfs_attr_label :: "(device_show_fn_v2, 'st) btrfs_attr" where
  "btrfs_attr_label = ATTR ''label'' mode_0444 None None"

definition btrfs_attr_cnt_write_io_errs :: "(device_show_fn_v2, 'st) btrfs_attr" where
  "btrfs_attr_cnt_write_io_errs =
     ATTR ''cnt_write_io_errs'' mode_0444 (Some Device_write_io_err_show) None"

definition btrfs_attr_cnt_read_io_errs :: "(device_show_fn_v2, 'st) btrfs_attr" where
  "btrfs_attr_cnt_read_io_errs =
     ATTR ''cnt_read_io_errs'' mode_0444 (Some Device_read_io_err_show) None"

definition btrfs_attr_cnt_flush_io_errs :: "(device_show_fn_v2, 'st) btrfs_attr" where
  "btrfs_attr_cnt_flush_io_errs =
     ATTR ''cnt_flush_io_errs'' mode_0444 (Some Device_flush_io_err_show) None"

definition btrfs_attr_cnt_corruption_errs :: "(device_show_fn_v2, 'st) btrfs_attr" where
  "btrfs_attr_cnt_corruption_errs =
     ATTR ''cnt_corruption_errs'' mode_0444 (Some Device_corruption_err_show) None"

definition btrfs_attr_cnt_generation_errs :: "(device_show_fn_v2, 'st) btrfs_attr" where
  "btrfs_attr_cnt_generation_errs =
     ATTR ''cnt_generation_errs'' mode_0444 (Some Device_generation_err_show) None"

definition btrfs_info_default_attrs :: "('sh, 'st) btrfs_attr list" where
  "btrfs_info_default_attrs = [btrfs_attr_num_devices]"

definition btrfs_health_default_attrs :: "('sh, 'st) btrfs_attr list" where
  "btrfs_health_default_attrs = [btrfs_attr_dummy]"

definition btrfs_devices_default_attrs :: "('sh, 'st) btrfs_attr list" where
  "btrfs_devices_default_attrs = [btrfs_attr_dummy1]"

definition btrfs_device_dir_default_attrs :: "('sh, 'st) btrfs_attr list" where
  "btrfs_device_dir_default_attrs = []"

definition btrfs_device_default_attrs_v2 :: "(device_show_fn_v2, 'st) btrfs_attr list" where
  "btrfs_device_default_attrs_v2 =
     [btrfs_attr_uuid, btrfs_attr_label, btrfs_attr_cnt_write_io_errs,
      btrfs_attr_cnt_read_io_errs, btrfs_attr_cnt_flush_io_errs,
      btrfs_attr_cnt_corruption_errs, btrfs_attr_cnt_generation_errs]"

text \<open>The permission bit that marks an attribute readable by its owner (\<open>0400\<close>).\<close>

definition readable :: "nat \<Rightarrow> bool" where
  "readable m = (m div 256 mod 2 = 1)"

subsection \<open>The namespace host's lookup\<close>

text \<open>
  Modelled from the spec: the resolution of an attribute name to its descriptor is done
  by the namespace host (sysfs), which is not part of the file; the dispatch functions of
  the file receive the descriptor. The spec (section 4.2) gives the host's part of a read
  as "Look up \<open>attr_name\<close> in the node's type descriptor's attribute set (linear scan
  ...). Fails with NotFound if absent.", after which the accessor is invoked through the
  dispatch function; a write is symmetric. \<open>ops_show\<close> and \<open>ops_store\<close> are the members
  of the node type's \<open>sysfs_ops\<close>.
\<close>

fun lookup_attr ::
  "string \<Rightarrow> ('sh, 'st, 'z) btrfs_attr_scheme list \<Rightarrow> ('sh, 'st, 'z) btrfs_attr_scheme option" where
  "lookup_attr n [] = None"
| "lookup_attr n (a # as) = (if name (attr a) = n then Some a else lookup_attr n as)"

definition read_attr ::
  "('k \<Rightarrow> ('sh, 'st, 'z) btrfs_attr_scheme \<Rightarrow> error + shown) \<Rightarrow> 'k \<Rightarrow>
   ('sh, 'st, 'z) btrfs_attr_scheme list \<Rightarrow> string \<Rightarrow> error + shown" where
  "read_attr ops_show k attrs n =
     (case lookup_attr n attrs of
        None \<Rightarrow> Inl ENOENT
      | Some a \<Rightarrow> ops_show k a)"

definition write_attr ::
  "('k \<Rightarrow> ('sh, 'st, 'z) btrfs_attr_scheme \<Rightarrow> string \<Rightarrow> nat \<Rightarrow> error + 'r) \<Rightarrow> 'k \<Rightarrow>
   ('sh, 'st, 'z) btrfs_attr_scheme list \<Rightarrow> string \<Rightarrow> string \<Rightarrow> nat \<Rightarrow> error + 'r" where
  "write_attr ops_store k attrs n buf len =
     (case lookup_attr n attrs of
        None \<Rightarrow> Inl ENOENT
      | Some a \<Rightarrow> ops_store k a buf len)"

subsection \<open>Threads\<close>

text \<open>
  For the claims about blocking, the lifecycle functions run as threads: a thread is the
  list of the kernel calls it has still to make, each call atomic, and a step of a thread
  that would sleep is not enabled (\<open>None\<close>). A dispatch reads the node and reaches its
  \<open>sysfs_ops\<close> through the node's type.

  Modelled from the spec: an attribute access in flight (\<open>reader_thread\<close>) is the
  namespace host's part, not in the file. By the spec (section 3, "namespace host and
  registry each hold logical references"; section 4.3, the destroy callback runs "once the
  namespace host confirms no further dispatches will arrive (external reference count
  reaches zero)") an access holds a reference to the node while the dispatch function
  runs on the backing object and drops it when the dispatch has returned.
\<close>

datatype step = Kobject_put "addr option" | Wait_for_completion addr | Dispatch addr

fun exec_step :: "step \<Rightarrow> world \<Rightarrow> world option" where
  "exec_step (Kobject_put kp) w = Some (kobject_put w kp)"
| "exec_step (Wait_for_completion k) w = wait_for_completion w k"
| "exec_step (Dispatch k) w =
     Some (case objs w k of
             None \<Rightarrow> w\<lparr>fault := True\<rparr>
           | Some n \<Rightarrow>
               (case ktype (kobj n) of
                  None \<Rightarrow> w
                | Some p \<Rightarrow> (case ktype_at p of None \<Rightarrow> w\<lparr>fault := True\<rparr> | Some t \<Rightarrow> w)))"

text \<open>The steps of a thread run without any other thread in between.\<close>

fun exec_steps :: "step list \<Rightarrow> world \<Rightarrow> world option" where
  "exec_steps [] w = Some w"
| "exec_steps (s # ss) w =
     (case exec_step s w of None \<Rightarrow> None | Some w' \<Rightarrow> exec_steps ss w')"

text \<open>The calls of \<open>btrfs_kobject_destroy\<close> and \<open>btrfs_kill_device\<close>, design by
  design.\<close>

definition destroy_thread_v1 :: "addr \<Rightarrow> step list" where
  "destroy_thread_v1 btrfs_kobj = [Kobject_put (Some btrfs_kobj), Wait_for_completion btrfs_kobj]"

definition kill_thread_v1 :: "addr \<Rightarrow> step list" where
  "kill_thread_v1 device_kobj = [Kobject_put (Some device_kobj), Wait_for_completion device_kobj]"

definition destroy_thread_v2 :: "addr \<Rightarrow> step list" where
  "destroy_thread_v2 btrfs_kobj = [Kobject_put (Some btrfs_kobj)]"

definition kill_thread_v2 :: "addr \<Rightarrow> step list" where
  "kill_thread_v2 super_kobj = [Kobject_put (Some super_kobj)]"

text \<open>Modelled from the spec: an access in flight, which dispatches on the backing object
  and then drops the reference the namespace host holds for it.\<close>

definition reader_thread :: "addr \<Rightarrow> step list" where
  "reader_thread k = [Dispatch k, Kobject_put (Some k)]"

text \<open>
  A system is the kernel state, the thread of the caller of the lifecycle function, and
  the threads of the accesses in flight. A schedule names the thread of each step.
\<close>

type_synonym system = "world \<times> step list \<times> step list list"

datatype tid = Caller | Reader nat

fun sched_step :: "tid \<Rightarrow> system \<Rightarrow> system option" where
  "sched_step Caller (w, c, rs) =
     (case c of
        [] \<Rightarrow> None
      | s # rest \<Rightarrow>
          (case exec_step s w of None \<Rightarrow> None | Some w' \<Rightarrow> Some (w', rest, rs)))"
| "sched_step (Reader i) (w, c, rs) =
     (if i < length rs
      then (case rs ! i of
              [] \<Rightarrow> None
            | s # rest \<Rightarrow>
                (case exec_step s w of
                   None \<Rightarrow> None
                 | Some w' \<Rightarrow> Some (w', c, rs[i := rest])))
      else None)"

fun run :: "tid list \<Rightarrow> system \<Rightarrow> system option" where
  "run [] sys = Some sys"
| "run (t # ts) sys = (case sched_step t sys of None \<Rightarrow> None | Some sys' \<Rightarrow> run ts sys')"

text \<open>
  A node at \<open>k\<close> that is registered under the static type \<open>t\<close>, with the registry's
  reference and one reference for each of \<open>N\<close> accesses in flight, its completion initialised and
  its release function not yet called.
\<close>

definition in_use :: "world \<Rightarrow> addr \<Rightarrow> kobj_type \<Rightarrow> nat \<Rightarrow> bool" where
  "in_use w k t N =
     (case objs w k of
        None \<Rightarrow> False
      | Some n \<Rightarrow>
          ktype (kobj n) = Some (Static t) \<and> kref (kobj n) = 1 + int N \<and> unregister n = 0
          \<and> released w k = 0 \<and> \<not> fault w)"

definition start :: "world \<Rightarrow> step list \<Rightarrow> addr \<Rightarrow> nat \<Rightarrow> system" where
  "start w caller k N = (w, caller, replicate N (reader_thread k))"

text \<open>Every access has made all its calls.\<close>

definition all_done :: "step list list \<Rightarrow> bool" where
  "all_done rs = list_all (\<lambda>r. r = []) rs"

text \<open>Node types whose release function completes the node's completion (first
  design).\<close>

definition completes :: "kobj_type \<Rightarrow> bool" where
  "completes t = (release t = Btrfs_kobject_release_v1 \<or> release t = Btrfs_device_release_v1)"

text \<open>The accesses in flight: the reader threads that have calls left.\<close>

definition active :: "step list list \<Rightarrow> nat" where
  "active rs = length (filter (\<lambda>r. r \<noteq> []) rs)"

text \<open>
  What holds of every state a first-design system reaches from \<open>start\<close>, with the
  caller in \<open>btrfs_kobject_destroy\<close> or \<open>btrfs_kill_device\<close>. Each reader is at one of
  its three points; the count is the number of references not yet dropped, and the
  release function has run, once, exactly when that number is 0; the completion is
  pending from then until the caller has consumed it.
\<close>

definition readers_ok :: "addr \<Rightarrow> step list list \<Rightarrow> bool" where
  "readers_ok k rs =
     list_all (\<lambda>r. r = reader_thread k \<or> r = [Kobject_put (Some k)] \<or> r = []) rs"

definition inv_v1 :: "addr \<Rightarrow> kobj_type \<Rightarrow> system \<Rightarrow> bool" where
  "inv_v1 k t sys =
     (case sys of (w, c, rs) \<Rightarrow>
        readers_ok k rs \<and> \<not> fault w \<and>
        (case objs w k of
           None \<Rightarrow> False
         | Some n \<Rightarrow>
             ktype (kobj n) = Some (Static t) \<and>
             (if c = [Kobject_put (Some k), Wait_for_completion k]
              then kref (kobj n) = 1 + int (active rs) \<and> released w k = 0 \<and> unregister n = 0
              else if c = [Wait_for_completion k]
              then kref (kobj n) = int (active rs) \<and>
                   (if active rs = 0 then released w k = 1 \<and> unregister n = 1
                    else released w k = 0 \<and> unregister n = 0)
              else c = [] \<and> active rs = 0 \<and> kref (kobj n) = 0 \<and> released w k = 1
                   \<and> unregister n = 0)))"

text \<open>An empty kernel state (fresh addresses start at 100), and in it a node registered
  under a static type, with the registry's reference and \<open>N\<close> more.\<close>

definition world0 :: world where
  "world0 = \<lparr>objs = (\<lambda>_. None), sysfs = (\<lambda>_. None), allocs = [], brk = 100, klog = [],
     released = (\<lambda>_. 0), fault = False, btrfs_kset = None, btrfs_devices = None,
     btrfs_health = None, btrfs_info = None\<rparr>"

definition node_in_use :: "kobj_type \<Rightarrow> nat \<Rightarrow> node" where
  "node_in_use t N =
     \<lparr>kobj = \<lparr>k_name = ''devices'', parent = None, kset = None, ktype = Some (Static t),
        kref = 1 + int N, state_initialized = True, state_in_sysfs = True\<rparr>,
      unregister = 0\<rparr>"

definition world_with :: "addr \<Rightarrow> kobj_type \<Rightarrow> nat \<Rightarrow> world" where
  "world_with k t N =
     world0\<lparr>objs := (objs world0)(k \<mapsto> node_in_use t N),
            sysfs := (sysfs world0)((Root, ''devices'') \<mapsto> k)\<rparr>"

subsection \<open>Example inputs\<close>

text \<open>A layout of the five counters (any layout with distinct offsets serves), a device
  whose counters are small, and one whose write-error counter has all 32 bits set.\<close>

definition layout0 :: "dev_field \<Rightarrow> nat" where
  "layout0 f =
     (case f of
        Cnt_write_io_errs \<Rightarrow> 200 | Cnt_read_io_errs \<Rightarrow> 204 | Cnt_flush_io_errs \<Rightarrow> 208
      | Cnt_corruption_errs \<Rightarrow> 212 | Cnt_generation_errs \<Rightarrow> 216)"

definition dev_small :: btrfs_device where
  "dev_small = \<lparr>cnt_write_io_errs = 0, cnt_read_io_errs = 1, cnt_flush_io_errs = 17,
     cnt_corruption_errs = 0x7FFFFFFF, cnt_generation_errs = 4096\<rparr>"

definition dev_max :: btrfs_device where
  "dev_max = \<lparr>cnt_write_io_errs = 0xFFFFFFFF, cnt_read_io_errs = 0, cnt_flush_io_errs = 0,
     cnt_corruption_errs = 0, cnt_generation_errs = 0\<rparr>"

text \<open>A kernel state that holds one object at \<open>k\<close>, zeroed and not yet initialised.\<close>

definition world_dev :: "addr \<Rightarrow> world" where
  "world_dev k = world0\<lparr>objs := (objs world0)(k \<mapsto> zeroed)\<rparr>"

text \<open>An empty kernel state with given outcomes of the coming allocations.\<close>

definition world_allocs :: "bool list \<Rightarrow> world" where
  "world_allocs outcomes = world0\<lparr>allocs := outcomes\<rparr>"

text \<open>
  The state after \<open>btrfs_init_sysfs\<close> of the second design has run in the empty state
  (the kset is at address 100, the nodes \<open>devices\<close>, \<open>health\<close> and \<open>info\<close> at 101, 102
  and 103), and that state with one access to \<open>devices\<close> in flight, for which the
  namespace host has taken a reference.
\<close>

definition world_v2 :: world where
  "world_v2 = snd (btrfs_init_sysfs_v2 world0)"

definition world_v2_reading :: world where
  "world_v2_reading = kobject_get world_v2 101"

section \<open>Properties\<close>

subsection \<open>Decimal output\<close>

lemma lt10:
  "(d::nat) < 10 \<Longrightarrow>
   d = 0 \<or> d = 1 \<or> d = 2 \<or> d = 3 \<or> d = 4 \<or> d = 5 \<or> d = 6 \<or> d = 7 \<or> d = 8 \<or> d = 9"
  by arith

lemma digit_val_digit_char: "d < 10 \<Longrightarrow> digit_val (digit_char d) = d"
  by (drule lt10) (auto simp: digit_val_def digit_char_def digits_def)

lemma is_digit_digit_char: "d < 10 \<Longrightarrow> is_digit (digit_char d)"
  by (drule lt10) (auto simp: is_digit_def digit_char_def digits_def)

lemma digit_char_zero: "d < 10 \<Longrightarrow> digit_char d = CHR ''0'' \<Longrightarrow> d = 0"
  by (drule lt10) (auto simp: digit_char_def digits_def)

lemma dec_value_snoc: "dec_value (s @ [c]) = 10 * dec_value s + digit_val c"
  by (simp add: dec_value_def)

lemma dec_value_utoa: "dec_value (utoa n) = n"
proof (induction n rule: utoa.induct)
  case (1 n)
  show ?case
  proof (cases "n < 10")
    case True
    then show ?thesis
      by (subst utoa.simps) (simp add: dec_value_def digit_val_digit_char)
  next
    case False
    with 1 have "dec_value (utoa (n div 10)) = n div 10" by simp
    with False show ?thesis
      by (subst utoa.simps) (simp add: dec_value_snoc digit_val_digit_char)
  qed
qed

lemma utoa_nonempty: "utoa n \<noteq> []"
  by (subst utoa.simps) simp

lemma utoa_digits: "list_all is_digit (utoa n)"
proof (induction n rule: utoa.induct)
  case (1 n)
  then show ?case
    by (subst utoa.simps) (simp add: is_digit_digit_char)
qed

lemma hd_utoa: "0 < n \<Longrightarrow> hd (utoa n) \<noteq> CHR ''0''"
proof (induction n rule: utoa.induct)
  case (1 n)
  show ?case
  proof (cases "n < 10")
    case True
    with 1(2) show ?thesis
      by (subst utoa.simps) (auto dest: digit_char_zero)
  next
    case False
    then have "0 < n div 10" by simp
    with 1(1) False have "hd (utoa (n div 10)) \<noteq> CHR ''0''" by simp
    with False show ?thesis
      by (subst utoa.simps) (simp add: hd_append utoa_nonempty)
  qed
qed

lemma utoa_0: "utoa 0 = ''0''"
  by (subst utoa.simps) (simp add: digit_char_def digits_def)

lemma canonical_utoa: "canonical_decimal (utoa n)"
  using hd_utoa [of n]
  by (cases "n = 0")
    (auto simp: canonical_decimal_def utoa_nonempty utoa_digits utoa_0 is_digit_def digits_def)

lemma sint_small: "unat (x :: 32 word) < 2 ^ 31 \<Longrightarrow> sint x = int (unat x)"
proof -
  assume a: "unat x < 2 ^ 31"
  have u: "uint x = int (unat x)" by simp
  from a have "int (unat x) < int (2 ^ 31)" by (simp only: of_nat_less_iff)
  with u have b: "uint x < 2 ^ 31" by simp
  have c: "- (2 ^ 31) \<le> uint x" by (rule order_trans [of _ 0]) simp_all
  have "signed_take_bit 31 (uint x) = uint x"
    using c b by (rule signed_take_bit_int_eq_self)
  then have "sint x = uint x" by (simp only: sint_uint) simp
  with u show ?thesis by simp
qed

lemma itoa_nonneg: "unat (x :: 32 word) < 2 ^ 31 \<Longrightarrow> itoa (sint x) = utoa (unat x)"
  by (simp add: sint_small itoa_def)

subsection \<open>Reading a counter (first design)\<close>

lemma load_int_field:
  "distinct (map offsetof dev_fields) \<Longrightarrow> load_int offsetof d (offsetof f) = Some (counter f d)"
  by (cases f) (auto simp: load_int_def dev_fields_def)

lemmas dev_attr_defs =
  btrfs_dev_attr_cnt_write_io_errs_def btrfs_dev_attr_cnt_read_io_errs_def
  btrfs_dev_attr_cnt_flush_io_errs_def btrfs_dev_attr_cnt_corruption_errs_def
  btrfs_dev_attr_cnt_generation_errs_def BTRFS_DEVICE_OFFSET_ATTR_def

lemma dev_attr_offset: "offset (btrfs_dev_attr offsetof f) = offsetof f"
  by (cases f) (simp_all add: dev_attr_defs)

lemma dev_attr_show: "show (btrfs_dev_attr offsetof f) = Some Btrfs_device_show"
  by (cases f) (simp_all add: dev_attr_defs)

lemma dev_attr_name: "name (attr (btrfs_dev_attr offsetof f)) = field_name f"
  by (cases f) (simp_all add: dev_attr_defs)

lemma read_counter:
  "distinct (map offsetof dev_fields) \<Longrightarrow>
   read_device_v1 offsetof d (btrfs_dev_attr offsetof f) = Inr (sprintf_d_nl (counter f d))"
  by (simp add: read_device_v1_def btrfs_device_attr_show_def btrfs_device_show_def
      load_int_field dev_attr_offset dev_attr_show)

lemma distinct_layout0: "distinct (map layout0 dev_fields)"
  by (simp add: dev_fields_def layout0_def)

subsection \<open>Claim C2\<close>

text \<open>
  Claim C2, amended. For each of the five offset-based counter attributes of the first
  design (\<open>cnt_write_io_errs\<close>, \<open>cnt_read_io_errs\<close>, \<open>cnt_flush_io_errs\<close>,
  \<open>cnt_corruption_errs\<close>, \<open>cnt_generation_errs\<close>), under any layout that gives the
  counters distinct offsets, the attribute carries the name and the offset of its own
  counter, and a read returns the decimal numeral of the 32-bit field at that offset read
  as a signed \<open>int\<close> (conversion \<open>%d\<close>), followed by one newline, with the byte count as
  return value. For a field value below \<open>2^31\<close> this is the canonical decimal numeral of
  the unsigned value (\<open>utoa\<close>, whose value is the number and which has no leading zero);
  for a field with the top bit set it is a minus sign followed by the numeral of the
  magnitude.
\<close>

theorem counter_attr_read_signed:
  "distinct (map offsetof dev_fields) \<Longrightarrow>
   name (attr (btrfs_dev_attr offsetof f :: (device_show_fn_v1, 'st) btrfs_device_attr_v1)) =
     field_name f \<and>
   offset (btrfs_dev_attr offsetof f :: (device_show_fn_v1, 'st) btrfs_device_attr_v1) =
     offsetof f \<and>
   read_device_v1 offsetof d
     (btrfs_dev_attr offsetof f :: (device_show_fn_v1, 'st) btrfs_device_attr_v1) =
     Inr (int (length (itoa (sint (counter f d)))) + 1, itoa (sint (counter f d)) @ [newline]) \<and>
   (unat (counter f d) < 2 ^ 31 \<longrightarrow> itoa (sint (counter f d)) = utoa (unat (counter f d))) \<and>
   (sint (counter f d) < 0 \<longrightarrow>
      itoa (sint (counter f d)) = CHR ''-'' # utoa (nat (- sint (counter f d)))) \<and>
   dec_value (utoa n) = n \<and> canonical_decimal (utoa n)"
  by (simp add: read_counter dev_attr_name dev_attr_offset sprintf_d_nl_def itoa_nonneg
      dec_value_utoa canonical_utoa) (simp add: itoa_def)

text \<open>The theorem at the layout \<open>layout0\<close> and the device \<open>dev_small\<close>: the values
  \<open>2^31 - 1\<close>, 0 and 1.\<close>

theorem counter_attr_read_signed_witness:
  "distinct (map layout0 dev_fields) \<and>
   read_device_v1 layout0 dev_small
     (btrfs_dev_attr layout0 Cnt_corruption_errs :: (device_show_fn_v1, unit) btrfs_device_attr_v1) =
     Inr (11, ''2147483647'' @ [newline]) \<and>
   read_device_v1 layout0 dev_small
     (btrfs_dev_attr layout0 Cnt_write_io_errs :: (device_show_fn_v1, unit) btrfs_device_attr_v1) =
     Inr (2, ''0'' @ [newline]) \<and>
   read_device_v1 layout0 dev_small
     (btrfs_dev_attr layout0 Cnt_read_io_errs :: (device_show_fn_v1, unit) btrfs_device_attr_v1) =
     Inr (2, ''1'' @ [newline])"
  using counter_attr_read_signed [where 'st = unit, OF distinct_layout0, of Cnt_corruption_errs dev_small 0]
    counter_attr_read_signed [where 'st = unit, OF distinct_layout0, of Cnt_write_io_errs dev_small 0]
    counter_attr_read_signed [where 'st = unit, OF distinct_layout0, of Cnt_read_io_errs dev_small 0]
  by (simp add: distinct_layout0 dev_small_def itoa_def utoa.simps digit_char_def digits_def
      del: btrfs_dev_attr.simps)

text \<open>
  Claim C2 as stated fails at the maximum value of an unsigned 32-bit field: the read
  returns \<open>-1\<close> and a newline, not \<open>4294967295\<close> and a newline.
\<close>

theorem counter_attr_read_unsigned_counterexample:
  "read_device_v1 layout0 dev_max
     (btrfs_dev_attr layout0 Cnt_write_io_errs :: (device_show_fn_v1, unit) btrfs_device_attr_v1) =
     Inr (3, ''-1'' @ [newline]) \<and>
   utoa (unat (cnt_write_io_errs dev_max)) = ''4294967295'' \<and>
   read_device_v1 layout0 dev_max
     (btrfs_dev_attr layout0 Cnt_write_io_errs :: (device_show_fn_v1, unit) btrfs_device_attr_v1) \<noteq>
     Inr (11, utoa (unat (cnt_write_io_errs dev_max)) @ [newline])"
  by (simp add: read_counter distinct_layout0 dev_max_def sprintf_d_nl_def itoa_def utoa.simps
      digit_char_def digits_def del: btrfs_dev_attr.simps)

subsection \<open>Claim C3\<close>

lemma readable_0444: "readable mode_0444"
  by (simp add: readable_def mode_0444_def)

text \<open>
  Claim C3. A read dispatched against an attribute whose \<open>show\<close> is \<open>NULL\<close> returns
  \<open>-EIO\<close>, from \<open>btrfs_kobject_attr_show\<close> and from \<open>btrfs_device_attr_show\<close>, whatever
  the indirect call would do (it is not made); a write against an attribute whose
  \<open>store\<close> is \<open>NULL\<close> returns \<open>-EIO\<close> in the same way. The placeholder attributes
  \<open>uuid\<close>, \<open>label\<close>, \<open>dummy\<close>, \<open>num_devices\<close> (and \<open>dummy1\<close>) are marked readable
  (\<open>0444\<close>) and both directions fail with \<open>-EIO\<close>; every attribute of a second-design
  device fails a write with \<open>-EIO\<close>.
\<close>

theorem missing_accessor_is_EIO:
  fixes a :: "('sh, 'st, 'z) btrfs_attr_scheme"
    and call_sh :: "'sh \<Rightarrow> 'k \<Rightarrow> ('sh, 'st, 'z) btrfs_attr_scheme \<Rightarrow> error + shown"
    and call_st :: "'st \<Rightarrow> 'k \<Rightarrow> ('sh, 'st, 'z) btrfs_attr_scheme \<Rightarrow> string \<Rightarrow> nat \<Rightarrow> error + 'r"
    and call_dsh :: "device_show_fn_v2 \<Rightarrow> 'k \<Rightarrow> (device_show_fn_v2, 'st) btrfs_attr \<Rightarrow> error + shown"
    and call_dst :: "'st \<Rightarrow> 'k \<Rightarrow> (device_show_fn_v2, 'st) btrfs_attr \<Rightarrow> string \<Rightarrow> nat \<Rightarrow> error + 'r"
    and call_ksh :: "'sh \<Rightarrow> 'k \<Rightarrow> ('sh, 'st) btrfs_attr \<Rightarrow> error + shown"
    and call_kst :: "'st \<Rightarrow> 'k \<Rightarrow> ('sh, 'st) btrfs_attr \<Rightarrow> string \<Rightarrow> nat \<Rightarrow> error + 'r"
  shows
  "(show a = None \<longrightarrow>
      btrfs_kobject_attr_show call_sh k a = Inl EIO \<and> btrfs_device_attr_show call_sh k a = Inl EIO) \<and>
   (store a = None \<longrightarrow>
      btrfs_kobject_attr_store call_st k a buf len = Inl EIO \<and>
      btrfs_device_attr_store call_st k a buf len = Inl EIO) \<and>
   (\<forall>p \<in> set [btrfs_attr_uuid, btrfs_attr_label].
      readable (mode (attr p)) \<and>
      btrfs_device_attr_show call_dsh k p = Inl EIO \<and>
      btrfs_device_attr_store call_dst k p buf len = Inl EIO) \<and>
   (\<forall>p \<in> set [btrfs_attr_dummy, btrfs_attr_num_devices, btrfs_attr_dummy1].
      readable (mode (attr p)) \<and>
      btrfs_kobject_attr_show call_ksh k p = Inl EIO \<and>
      btrfs_kobject_attr_store call_kst k p buf len = Inl EIO) \<and>
   (\<forall>p \<in> set btrfs_device_default_attrs_v2.
      btrfs_device_attr_store call_dst k p buf len = Inl EIO)"
proof -
  have 1: "show a = None \<longrightarrow>
      btrfs_kobject_attr_show call_sh k a = Inl EIO \<and> btrfs_device_attr_show call_sh k a = Inl EIO"
    by (simp add: btrfs_kobject_attr_show_def btrfs_device_attr_show_def)
  have 2: "store a = None \<longrightarrow>
      btrfs_kobject_attr_store call_st k a buf len = Inl EIO \<and>
      btrfs_device_attr_store call_st k a buf len = Inl EIO"
    by (simp add: btrfs_kobject_attr_store_def btrfs_device_attr_store_def)
  have 3: "\<forall>p \<in> set [btrfs_attr_uuid, btrfs_attr_label].
      readable (mode (attr p)) \<and>
      btrfs_device_attr_show call_dsh k p = Inl EIO \<and>
      btrfs_device_attr_store call_dst k p buf len = Inl EIO"
    by (simp add: btrfs_attr_uuid_def btrfs_attr_label_def ATTR_def readable_0444
        btrfs_device_attr_show_def btrfs_device_attr_store_def)
  have 4: "\<forall>p \<in> set [btrfs_attr_dummy, btrfs_attr_num_devices, btrfs_attr_dummy1].
      readable (mode (attr p)) \<and>
      btrfs_kobject_attr_show call_ksh k p = Inl EIO \<and>
      btrfs_kobject_attr_store call_kst k p buf len = Inl EIO"
    by (simp add: btrfs_attr_dummy_def btrfs_attr_num_devices_def btrfs_attr_dummy1_def ATTR_def
        readable_0444 btrfs_kobject_attr_show_def btrfs_kobject_attr_store_def)
  have 5: "\<forall>p \<in> set btrfs_device_default_attrs_v2.
      btrfs_device_attr_store call_dst k p buf len = Inl EIO"
    by (simp add: btrfs_device_default_attrs_v2_def btrfs_attr_uuid_def btrfs_attr_label_def
        btrfs_attr_cnt_write_io_errs_def btrfs_attr_cnt_read_io_errs_def
        btrfs_attr_cnt_flush_io_errs_def btrfs_attr_cnt_corruption_errs_def
        btrfs_attr_cnt_generation_errs_def ATTR_def btrfs_device_attr_store_def)
  from 1 2 3 4 5 show ?thesis by blast
qed

text \<open>The theorem at \<open>uuid\<close> (read) and at \<open>cnt_read_io_errs\<close> (write), with calls that
  would succeed if they were made; the read of \<open>cnt_read_io_errs\<close>, whose \<open>show\<close> is
  set, does reach its accessor.\<close>

theorem missing_accessor_is_EIO_witness:
  "show (btrfs_attr_uuid :: (device_show_fn_v2, unit) btrfs_attr) = None \<and>
   readable (mode (attr (btrfs_attr_uuid :: (device_show_fn_v2, unit) btrfs_attr))) \<and>
   btrfs_device_attr_show (call_show_v2 (\<lambda>_. Some dev_small)) ()
     (btrfs_attr_uuid :: (device_show_fn_v2, unit) btrfs_attr) = Inl EIO \<and>
   store (btrfs_attr_cnt_read_io_errs :: (device_show_fn_v2, unit) btrfs_attr) = None \<and>
   btrfs_device_attr_store (\<lambda>f k a buf len. Inr len) ()
     (btrfs_attr_cnt_read_io_errs :: (device_show_fn_v2, unit) btrfs_attr) ''7'' 1 = Inl EIO \<and>
   btrfs_device_attr_show (call_show_v2 (\<lambda>_. Some dev_small)) ()
     (btrfs_attr_cnt_read_io_errs :: (device_show_fn_v2, unit) btrfs_attr) = Inr (2, ''1'' @ [newline])"
proof -
  have s: "show (btrfs_attr_uuid :: (device_show_fn_v2, unit) btrfs_attr) = None"
    by (simp add: btrfs_attr_uuid_def ATTR_def)
  have t: "store (btrfs_attr_cnt_read_io_errs :: (device_show_fn_v2, unit) btrfs_attr) = None"
    by (simp add: btrfs_attr_cnt_read_io_errs_def ATTR_def)
  have r: "readable (mode (attr (btrfs_attr_uuid :: (device_show_fn_v2, unit) btrfs_attr)))"
    by (simp add: btrfs_attr_uuid_def ATTR_def readable_0444)
  have v: "btrfs_device_attr_show (call_show_v2 (\<lambda>_. Some dev_small)) ()
     (btrfs_attr_cnt_read_io_errs :: (device_show_fn_v2, unit) btrfs_attr) = Inr (2, ''1'' @ [newline])"
    by (simp add: btrfs_device_attr_show_def btrfs_attr_cnt_read_io_errs_def ATTR_def
        device_read_io_err_show_def dev_small_def sprintf_d_nl_def itoa_def utoa.simps
        digit_char_def digits_def)
  from missing_accessor_is_EIO [of "btrfs_attr_uuid :: (device_show_fn_v2, unit) btrfs_attr"
      "call_show_v2 (\<lambda>_. Some dev_small)" "()"]
    s have a: "btrfs_device_attr_show (call_show_v2 (\<lambda>_. Some dev_small)) ()
     (btrfs_attr_uuid :: (device_show_fn_v2, unit) btrfs_attr) = Inl EIO"
    by blast
  from missing_accessor_is_EIO [of "btrfs_attr_cnt_read_io_errs :: (device_show_fn_v2, unit) btrfs_attr"
      _ "()" "\<lambda>f k a buf len. Inr len" "''7''" 1]
    t have b: "btrfs_device_attr_store (\<lambda>f k a buf len. Inr len) ()
     (btrfs_attr_cnt_read_io_errs :: (device_show_fn_v2, unit) btrfs_attr) ''7'' 1 = Inl EIO"
    by blast
  from s t r v a b show ?thesis by blast
qed

subsection \<open>Claim C7\<close>

lemma strsep_loop_None: "strsep_loop None prev = prev"
  by (subst strsep_loop.simps) (simp add: strsep_def)

lemma strsep_loop_no_sep:
  "CHR ''/'' \<notin> set s \<Longrightarrow> strsep_loop (Some s) prev = Some s"
proof -
  assume a: "CHR ''/'' \<notin> set s"
  then have t: "takeWhile (\<lambda>c. c \<noteq> CHR ''/'') s = s" by (auto simp add: takeWhile_eq_all_conv)
  from a have d: "dropWhile (\<lambda>c. c \<noteq> CHR ''/'') s = []" by auto
  show ?thesis
    by (subst strsep_loop.simps) (simp add: strsep_def t d strsep_loop_None)
qed

lemma strsep_loop_sep:
  "CHR ''/'' \<notin> set a \<Longrightarrow>
   strsep_loop (Some (a @ CHR ''/'' # b)) prev = strsep_loop (Some b) (Some a)"
proof -
  assume a: "CHR ''/'' \<notin> set a"
  then have t: "takeWhile (\<lambda>c. c \<noteq> CHR ''/'') (a @ CHR ''/'' # b) = a"
    by (subst takeWhile_append2) auto
  from a have d: "dropWhile (\<lambda>c. c \<noteq> CHR ''/'') (a @ CHR ''/'' # b) = CHR ''/'' # b"
    by (subst dropWhile_append2) auto
  show ?thesis
    by (subst strsep_loop.simps) (simp add: strsep_def t d)
qed

lemma strsep_loop_prev: "strsep_loop (Some s) p = strsep_loop (Some s) q"
proof (cases "CHR ''/'' \<in> set s")
  case False
  then show ?thesis by (simp add: strsep_loop_no_sep)
next
  case True
  then obtain a b where "s = a @ CHR ''/'' # b" "CHR ''/'' \<notin> set a"
    by (auto dest: split_list_first)
  then show ?thesis by (simp add: strsep_loop_sep)
qed

lemma strsep_loop_last:
  "CHR ''/'' \<notin> set b \<Longrightarrow> strsep_loop (Some (a @ CHR ''/'' # b)) prev = Some b"
proof (induction "length a" arbitrary: a prev rule: less_induct)
  case less
  show ?case
  proof (cases "CHR ''/'' \<in> set a")
    case False
    with less.prems show ?thesis
      by (simp add: strsep_loop_sep strsep_loop_no_sep)
  next
    case True
    then obtain a1 a2 where s: "a = a1 @ CHR ''/'' # a2" and n: "CHR ''/'' \<notin> set a1"
      by (auto dest: split_list_first)
    then have "length a2 < length a" by simp
    with less.hyps less.prems
    have "strsep_loop (Some (a2 @ CHR ''/'' # b)) (Some a1) = Some b" by blast
    with s n show ?thesis
      using strsep_loop_sep [of a1 "a2 @ CHR ''/'' # b" prev] by simp
  qed
qed

lemma create_device_v1_registers:
  assumes "objs w k = Some n" and "allocs w = []" and "length p < 64"
    and "strsep_loop (Some p) None = Some nm"
    and "sysfs w (Dir btrfs_devices_v1, nm) = None"
  shows "fst (btrfs_create_device_v1 w k p) = Inr () \<and>
         sysfs (snd (btrfs_create_device_v1 w k p)) (Dir btrfs_devices_v1, nm) = Some k \<and>
         map_option (\<lambda>n. k_name (kobj n)) (objs (snd (btrfs_create_device_v1 w k p)) k) = Some nm"
  using assms
  by (simp add: btrfs_create_device_v1_def strcpy_def init_completion_def upd_unregister_def
      kobject_init_and_add_def kobject_init_def upd_kobj_def kobject_add_def alloc_def dir_of_def
      printk_def fmt_s_def Let_def)

text \<open>
  Claim C7. The name \<open>btrfs_create_device\<close> of the first design derives from the copied
  path (the final \<open>prev\<close> of its \<open>strsep\<close> loop) is the path itself when the path has
  no \<open>/\<close>, and otherwise what follows the last \<open>/\<close>: the last path component. When
  the path fits the 64-byte buffer (the subject of claim C10), the object is valid, the
  allocation succeeds and the devices directory has no entry of that name, the call
  succeeds and enters the device under that name.
\<close>

theorem device_name_is_last_component:
  "(CHR ''/'' \<notin> set s \<longrightarrow> strsep_loop (Some s) None = Some s) \<and>
   (CHR ''/'' \<notin> set b \<longrightarrow> strsep_loop (Some (a @ CHR ''/'' # b)) None = Some b) \<and>
   ((CHR ''/'' \<notin> set nm \<and> (p = nm \<or> p = a @ CHR ''/'' # nm)) \<and> length p < 64 \<and>
    objs w k \<noteq> None \<and> allocs w = [] \<and> sysfs w (Dir btrfs_devices_v1, nm) = None \<longrightarrow>
      fst (btrfs_create_device_v1 w k p) = Inr () \<and>
      sysfs (snd (btrfs_create_device_v1 w k p)) (Dir btrfs_devices_v1, nm) = Some k \<and>
      map_option (\<lambda>n. k_name (kobj n)) (objs (snd (btrfs_create_device_v1 w k p)) k) = Some nm)"
proof (intro conjI impI)
  assume "CHR ''/'' \<notin> set s"
  then show "strsep_loop (Some s) None = Some s" by (rule strsep_loop_no_sep)
next
  assume "CHR ''/'' \<notin> set b"
  then show "strsep_loop (Some (a @ CHR ''/'' # b)) None = Some b" by (rule strsep_loop_last)
next
  assume h: "(CHR ''/'' \<notin> set nm \<and> (p = nm \<or> p = a @ CHR ''/'' # nm)) \<and> length p < 64 \<and>
    objs w k \<noteq> None \<and> allocs w = [] \<and> sysfs w (Dir btrfs_devices_v1, nm) = None"
  then have l: "strsep_loop (Some p) None = Some nm"
    by (auto simp: strsep_loop_no_sep strsep_loop_last)
  from h obtain n where n: "objs w k = Some n" by auto
  from h have r: "allocs w = []" "length p < 64" "sysfs w (Dir btrfs_devices_v1, nm) = None"
    by simp_all
  note c = create_device_v1_registers [OF n r(1) r(2) l r(3)]
  from c show "fst (btrfs_create_device_v1 w k p) = Inr ()" by simp
  from c show "sysfs (snd (btrfs_create_device_v1 w k p)) (Dir btrfs_devices_v1, nm) = Some k"
    by simp
  from c show
    "map_option (\<lambda>n. k_name (kobj n)) (objs (snd (btrfs_create_device_v1 w k p)) k) = Some nm"
    by simp
qed

text \<open>The theorem at \<open>sda1\<close> and \<open>/dev/sda1\<close>, and the entry made for \<open>/dev/sda1\<close> in a
  state that holds a fresh device object.\<close>

theorem device_name_is_last_component_witness:
  "strsep_loop (Some ''sda1'') None = Some ''sda1'' \<and>
   strsep_loop (Some ''/dev/sda1'') None = Some ''sda1'' \<and>
   fst (btrfs_create_device_v1 (world_dev 7) 7 ''/dev/sda1'') = Inr () \<and>
   sysfs (snd (btrfs_create_device_v1 (world_dev 7) 7 ''/dev/sda1''))
     (Dir btrfs_devices_v1, ''sda1'') = Some 7"
  using device_name_is_last_component
    [of "''sda1''" "''sda1''" "''/dev''" "''sda1''" "''/dev/sda1''" "world_dev 7" 7]
  by (simp add: world_dev_def world0_def)

subsection \<open>Claim C10\<close>

lemma create_device_v1_overflow:
  "objs w k \<noteq> None \<Longrightarrow>
   (fst (btrfs_create_device_v1 w k p) = Inl Undefined_behaviour) = (64 \<le> length p)"
  by (auto simp add: btrfs_create_device_v1_def strcpy_def init_completion_def upd_unregister_def
      kobject_init_and_add_def kobject_init_def upd_kobj_def kobject_add_def alloc_def
      Let_def split: prod.splits sum.splits list.splits option.splits if_splits)

text \<open>
  Claim C10. \<open>btrfs_create_device\<close> of the first design copies the path with
  \<open>strcpy\<close> into \<open>char device_name[64]\<close> before anything else: for a valid device
  object the call leaves the buffer's bounds (undefined behaviour) exactly when the path
  with its terminating NUL is longer than 64 bytes, and no check of the length precedes
  the copy.
\<close>

theorem create_device_v1_strcpy_bound:
  "objs w k \<noteq> None \<Longrightarrow>
   (fst (btrfs_create_device_v1 w k dev_name) = Inl Undefined_behaviour) =
     (64 < length dev_name + 1) \<and>
   strcpy 64 dev_name =
     (if length dev_name + 1 \<le> 64 then Inr dev_name else Inl Undefined_behaviour)"
  using create_device_v1_overflow [of w k dev_name] by (auto simp: strcpy_def)

text \<open>The theorem at a path of 64 characters (65 bytes with the NUL), which overflows,
  and at one of 63 characters, which does not.\<close>

theorem create_device_v1_strcpy_bound_witness:
  "objs (world_dev 7) 7 \<noteq> None \<and>
   fst (btrfs_create_device_v1 (world_dev 7) 7 (replicate 64 (CHR ''a''))) =
     Inl Undefined_behaviour \<and>
   fst (btrfs_create_device_v1 (world_dev 7) 7 (replicate 63 (CHR ''a''))) \<noteq>
     Inl Undefined_behaviour"
  using create_device_v1_strcpy_bound [of "world_dev 7" 7 "replicate 64 (CHR ''a'')"]
    create_device_v1_strcpy_bound [of "world_dev 7" 7 "replicate 63 (CHR ''a'')"]
  by (simp add: world_dev_def world0_def)

subsection \<open>Reference counting\<close>

lemma kobject_put_None: "kobject_put w None = w"
  by (subst kobject_put.simps) simp

lemma kobject_put_keep:
  "objs w k = Some n \<Longrightarrow> kref (kobj n) \<noteq> 1 \<Longrightarrow>
   kobject_put w (Some k) = upd_kobj w k (\<lambda>ko. ko\<lparr>kref := kref ko - 1\<rparr>)"
  by (subst kobject_put.simps) simp

lemma kobject_put_last:
  "objs w k = Some n \<Longrightarrow> kref (kobj n) = 1 \<Longrightarrow>
   kobject_put w (Some k) = kobject_cleanup (upd_kobj w k (\<lambda>ko. ko\<lparr>kref := kref ko - 1\<rparr>)) k"
  by (subst kobject_put.simps) simp

lemma kobject_put_dead: "objs w k = None \<Longrightarrow> kobject_put w (Some k) = w\<lparr>fault := True\<rparr>"
  by (subst kobject_put.simps) simp

subsection \<open>Claim C4\<close>

lemma create_device_v2_again:
  "objs w k = Some n \<Longrightarrow> state_initialized (kobj n) \<Longrightarrow>
   btrfs_create_device_v2 w k label =
     (Inr (), w\<lparr>objs := (objs w)(k \<mapsto> n\<lparr>kobj := (kobj n)\<lparr>kref := kref (kobj n) + 1\<rparr>\<rparr>)\<rparr>)"
  by (simp add: btrfs_create_device_v2_def kobject_get_def upd_kobj_def)

lemma create_device_v2_first:
  assumes "objs w k = Some n" and "\<not> state_initialized (kobj n)"
    and "btrfs_create_device_v2 w k label = (Inr (), w1)"
  shows "\<exists>n1. objs w1 k = Some n1 \<and> state_initialized (kobj n1) \<and> kref (kobj n1) = 1 \<and>
           state_in_sysfs (kobj n1) \<and> sysfs w1 (dir_of (kobj n1), label) = Some k"
  using assms
  by (auto simp add: btrfs_create_device_v2_def kobject_init_and_add_def kobject_init_def
      upd_kobj_def kobject_add_def alloc_def Let_def dir_of_def
      split: prod.splits sum.splits list.splits option.splits if_splits bool.splits)

text \<open>
  Claim C4. \<open>btrfs_create_device\<close> of the second design, called with a backing object
  whose \<open>state_initialized\<close> is set, returns 0 and changes nothing but the reference
  count of that object, which goes up by one: the namespace, the log and the pending
  allocations are as before, so no registration is run. In particular, after a first
  call on a fresh object has registered it, a second call (with the same or another
  label) returns 0, leaves the namespace as the first call left it, and takes the count
  from 1 to 2.
\<close>

theorem create_device_v2_idempotent:
  "(objs w k = Some n \<and> state_initialized (kobj n) \<longrightarrow>
      btrfs_create_device_v2 w k label =
        (Inr (),
         w\<lparr>objs := (objs w)(k \<mapsto> n\<lparr>kobj := (kobj n)\<lparr>kref := kref (kobj n) + 1\<rparr>\<rparr>)\<rparr>)) \<and>
   (objs w k = Some n \<and> \<not> state_initialized (kobj n) \<and>
    btrfs_create_device_v2 w k label = (Inr (), w1) \<longrightarrow>
      fst (btrfs_create_device_v2 w1 k label') = Inr () \<and>
      sysfs (snd (btrfs_create_device_v2 w1 k label')) = sysfs w1 \<and>
      klog (snd (btrfs_create_device_v2 w1 k label')) = klog w1 \<and>
      allocs (snd (btrfs_create_device_v2 w1 k label')) = allocs w1 \<and>
      map_option (\<lambda>n. kref (kobj n)) (objs w1 k) = Some 1 \<and>
      map_option (\<lambda>n. kref (kobj n)) (objs (snd (btrfs_create_device_v2 w1 k label')) k) = Some 2)"
proof (intro conjI impI)
  assume "objs w k = Some n \<and> state_initialized (kobj n)"
  then show "btrfs_create_device_v2 w k label =
        (Inr (),
         w\<lparr>objs := (objs w)(k \<mapsto> n\<lparr>kobj := (kobj n)\<lparr>kref := kref (kobj n) + 1\<rparr>\<rparr>)\<rparr>)"
    by (simp add: create_device_v2_again)
next
  assume h: "objs w k = Some n \<and> \<not> state_initialized (kobj n) \<and>
    btrfs_create_device_v2 w k label = (Inr (), w1)"
  then obtain n1 where n1: "objs w1 k = Some n1" "state_initialized (kobj n1)" "kref (kobj n1) = 1"
    using create_device_v2_first [of w k n label w1] by auto
  note s = create_device_v2_again [OF n1(1) n1(2), of label']
  from s show "fst (btrfs_create_device_v2 w1 k label') = Inr ()" by simp
  from s show "sysfs (snd (btrfs_create_device_v2 w1 k label')) = sysfs w1" by simp
  from s show "klog (snd (btrfs_create_device_v2 w1 k label')) = klog w1" by simp
  from s show "allocs (snd (btrfs_create_device_v2 w1 k label')) = allocs w1" by simp
  from n1 show "map_option (\<lambda>n. kref (kobj n)) (objs w1 k) = Some 1" by simp
  from s n1 show
    "map_option (\<lambda>n. kref (kobj n)) (objs (snd (btrfs_create_device_v2 w1 k label')) k) = Some 2"
    by simp
qed

lemma create_device_v2_fresh:
  "btrfs_create_device_v2 (world_dev 7) 7 ''sda1'' =
     (Inr (),
      world0\<lparr>objs := (objs world0)(7 \<mapsto> \<lparr>kobj = \<lparr>k_name = ''sda1'', parent = None, kset = None,
                 ktype = Some (Static Btrfs_ktype_device_v2), kref = 1,
                 state_initialized = True, state_in_sysfs = True\<rparr>, unregister = 0\<rparr>),
              sysfs := (sysfs world0)((Root, ''sda1'') \<mapsto> 7)\<rparr>)"
  by (simp add: btrfs_create_device_v2_def world_dev_def world0_def zeroed_def
      kobject_init_and_add_def kobject_init_def upd_kobj_def kobject_add_def alloc_def Let_def
      dir_of_def)

text \<open>The theorem at a fresh device object at address 7, attached twice as \<open>sda1\<close>.\<close>

theorem create_device_v2_idempotent_witness:
  "fst (btrfs_create_device_v2 (world_dev 7) 7 ''sda1'') = Inr () \<and>
   fst (btrfs_create_device_v2 (snd (btrfs_create_device_v2 (world_dev 7) 7 ''sda1'')) 7 ''sda1'')
     = Inr () \<and>
   map_option (\<lambda>n. kref (kobj n))
     (objs (snd (btrfs_create_device_v2
        (snd (btrfs_create_device_v2 (world_dev 7) 7 ''sda1'')) 7 ''sda1'')) 7) = Some 2 \<and>
   sysfs (snd (btrfs_create_device_v2
        (snd (btrfs_create_device_v2 (world_dev 7) 7 ''sda1'')) 7 ''sda1''))
     = sysfs (snd (btrfs_create_device_v2 (world_dev 7) 7 ''sda1''))"
  using create_device_v2_idempotent
    [of "world_dev 7" 7 zeroed "''sda1''"
      "snd (btrfs_create_device_v2 (world_dev 7) 7 ''sda1'')" "''sda1''"]
  by (simp add: create_device_v2_fresh) (simp add: world_dev_def world0_def zeroed_def)

subsection \<open>Claim C6\<close>

lemmas init_v2_defs =
  btrfs_init_sysfs_v2_def kset_create_and_add_def kzalloc_def alloc_def world0_def
  btrfs_static_init_sysfs_def btrfs_kobject_create_def upd_kobj_def zeroed_def
  kobject_init_and_add_def kobject_init_def kobject_add_def dir_of_def printk_def Let_def
  btrfs_devices_error_def btrfs_health_error_def btrfs_info_error_def
  btrfs_kobject_destroy_v2_def kobject_put_None kobject_put.simps kobject_cleanup.simps
  kobject_del_def btrfs_kobject_release_v2_def kfree_def param_dies_def

lemma init_health_alloc_fails:
  "btrfs_init_sysfs_v2 (world_allocs [True, True, True, False]) =
     (Inl EINVAL,
      world0\<lparr>objs := (objs world0)
                (100 \<mapsto> \<lparr>kobj = \<lparr>k_name = ''btrfs'', parent = None, kset = None, ktype = None,
                    kref = 1, state_initialized = True, state_in_sysfs = False\<rparr>, unregister = 0\<rparr>,
                 101 \<mapsto> \<lparr>kobj = \<lparr>k_name = ''devices'', parent = Some 100, kset = Some 100,
                    ktype = Some Dangling, kref = 1, state_initialized = True,
                    state_in_sysfs = True\<rparr>, unregister = 0\<rparr>),
              sysfs := (sysfs world0)((Dir 100, ''devices'') \<mapsto> 101),
              brk := 102,
              klog := [''btrfs: About to notify the userspace abt this'' @ [newline]],
              btrfs_kset := Some 100, btrfs_devices := Some 101, btrfs_health := None\<rparr>)"
  by (simp add: init_v2_defs world_allocs_def)

text \<open>
  Claim C6, at a failing input of \<open>btrfs_init_sysfs\<close> (second design): the allocation of
  the \<open>health\<close> node fails, after the kset and the \<open>devices\<close> node have been created.
  Init returns \<open>-EINVAL\<close>, and the \<open>devices\<close> node (address 101) is still allocated and
  still entered in the namespace. So init does not roll back every fixed node created so
  far: the error label reached destroys the node whose creation has just failed (a
  \<open>NULL\<close> pointer) instead of the one created before it.
\<close>

theorem static_init_rollback_misses_devices:
  "fst (btrfs_init_sysfs_v2 (world_allocs [True, True, True, False])) = Inl EINVAL \<and>
   sysfs (snd (btrfs_init_sysfs_v2 (world_allocs [True, True, True, False])))
     (Dir 100, ''devices'') = Some 101 \<and>
   objs (snd (btrfs_init_sysfs_v2 (world_allocs [True, True, True, False]))) 101 \<noteq> None"
  by (simp add: init_health_alloc_fails world0_def)

subsection \<open>Claim C9\<close>

lemma kobject_cleanup_device_v2:
  assumes "objs w k = Some n" and "ktype (kobj n) = Some (Static Btrfs_ktype_device_v2)"
    and "kref (kobj n) = 0"
  shows "\<exists>n'. objs (kobject_cleanup w k) k = Some n' \<and> kref (kobj n') = - 1 \<and>
           unregister n' = unregister n \<and> ktype (kobj n') = ktype (kobj n) \<and>
           state_initialized (kobj n') = state_initialized (kobj n) \<and>
           \<not> state_in_sysfs (kobj n')"
    and "released (kobject_cleanup w k) k = Suc (released w k)"
    and "fault (kobject_cleanup w k) = fault w"
  using assms
  by (simp_all add: kobject_cleanup.simps btrfs_device_release_v2.simps kobject_del_def
      upd_kobj_def kobject_put_keep)

text \<open>
  Claim C9. The second design's \<open>btrfs_device_release\<close>, the release function of the
  device node type, is a call of \<open>kobject_put\<close> on the same kobject. When
  \<open>btrfs_kill_device\<close> drops the last reference of a device node, the release function
  is called once, with the count at 0; it neither frees the object nor touches a
  completion, and its \<open>kobject_put\<close> takes the count to -1.
\<close>

theorem device_release_v2_puts_again:
  "btrfs_device_release_v2 w k = kobject_put w (Some k) \<and>
   release Btrfs_ktype_device_v2 = Btrfs_device_release_v2 \<and>
   (objs w k = Some n \<and> ktype (kobj n) = Some (Static Btrfs_ktype_device_v2) \<and>
    kref (kobj n) = 1 \<longrightarrow>
      map_option (\<lambda>n'. kref (kobj n')) (objs (btrfs_kill_device_v2 w k) k) = Some (- 1) \<and>
      map_option unregister (objs (btrfs_kill_device_v2 w k) k) = Some (unregister n) \<and>
      released (btrfs_kill_device_v2 w k) k = Suc (released w k))"
proof (intro conjI impI)
  show "btrfs_device_release_v2 w k = kobject_put w (Some k)"
    by (simp add: btrfs_device_release_v2.simps)
  show "release Btrfs_ktype_device_v2 = Btrfs_device_release_v2" by simp
next
  assume h: "objs w k = Some n \<and> ktype (kobj n) = Some (Static Btrfs_ktype_device_v2) \<and>
    kref (kobj n) = 1"
  define w0 where "w0 = upd_kobj w k (\<lambda>ko. ko\<lparr>kref := kref ko - 1\<rparr>)"
  define n0 where "n0 = n\<lparr>kobj := (kobj n)\<lparr>kref := 0\<rparr>\<rparr>"
  from h have a: "objs w0 k = Some n0" by (simp add: w0_def n0_def upd_kobj_def)
  from h have b: "ktype (kobj n0) = Some (Static Btrfs_ktype_device_v2)" "kref (kobj n0) = 0"
    by (simp_all add: n0_def)
  from h have r: "released w0 k = released w k" by (simp add: w0_def upd_kobj_def)
  from h have p: "btrfs_kill_device_v2 w k = kobject_cleanup w0 k"
    by (simp add: btrfs_kill_device_v2_def kobject_put_last w0_def)
  note c = kobject_cleanup_device_v2 [OF a b]
  from c(1) p show
    "map_option (\<lambda>n'. kref (kobj n')) (objs (btrfs_kill_device_v2 w k) k) = Some (- 1)"
    by auto
  from c(1) p show
    "map_option unregister (objs (btrfs_kill_device_v2 w k) k) = Some (unregister n)"
    by (auto simp: n0_def)
  from c(2) p r show "released (btrfs_kill_device_v2 w k) k = Suc (released w k)" by simp
qed

text \<open>The theorem at a registered second-design device node with one reference.\<close>

theorem device_release_v2_puts_again_witness:
  "map_option (\<lambda>n'. kref (kobj n'))
     (objs (btrfs_kill_device_v2 (world_with 7 Btrfs_ktype_device_v2 0) 7) 7) = Some (- 1) \<and>
   map_option unregister
     (objs (btrfs_kill_device_v2 (world_with 7 Btrfs_ktype_device_v2 0) 7) 7) = Some 0 \<and>
   released (btrfs_kill_device_v2 (world_with 7 Btrfs_ktype_device_v2 0) 7) 7 = 1"
  using device_release_v2_puts_again
    [of "world_with 7 Btrfs_ktype_device_v2 0" 7 "node_in_use Btrfs_ktype_device_v2 0"]
  by (simp add: world_with_def world0_def node_in_use_def)

subsection \<open>Threads: what every reachable state satisfies\<close>

lemma put_completes:
  assumes "objs w k = Some n" and "ktype (kobj n) = Some (Static t)" and "completes t"
  shows "\<exists>n'. objs (kobject_put w (Some k)) k = Some n' \<and> ktype (kobj n') = Some (Static t) \<and>
           kref (kobj n') = kref (kobj n) - 1 \<and>
           unregister n' = (if kref (kobj n) = 1 then Suc (unregister n) else unregister n)"
    and "released (kobject_put w (Some k)) k =
           (if kref (kobj n) = 1 then Suc (released w k) else released w k)"
    and "fault (kobject_put w (Some k)) = fault w"
  using assms
  by (auto simp add: kobject_put.simps kobject_cleanup.simps upd_kobj_def kobject_del_def
      completes_def btrfs_kobject_release_v1_def btrfs_device_release_v1_def complete_def
      upd_unregister_def)

lemma active_update:
  "i < length rs \<Longrightarrow>
   active (rs[i := x]) + (if rs ! i \<noteq> [] then 1 else 0) = active rs + (if x \<noteq> [] then 1 else 0)"
proof (induction rs arbitrary: i)
  case Nil
  then show ?case by simp
next
  case (Cons r rs)
  show ?case
  proof (cases i)
    case 0
    then show ?thesis by (simp add: active_def)
  next
    case (Suc j)
    with Cons.prems have "j < length rs" by simp
    from Cons.IH [OF this] Suc show ?thesis by (auto simp add: active_def split: if_splits)
  qed
qed

lemma active_zero: "active rs = 0 \<longleftrightarrow> all_done rs"
  by (induction rs) (auto simp: active_def all_done_def)

lemma active_replicate: "active (replicate N (reader_thread k)) = N"
  by (simp add: active_def reader_thread_def)


lemma readers_ok_update:
  "readers_ok k rs \<Longrightarrow> x = reader_thread k \<or> x = [Kobject_put (Some k)] \<or> x = [] \<Longrightarrow>
   readers_ok k (rs[i := x])"
  using set_update_subset_insert [of rs i x]
  by (auto simp: readers_ok_def list_all_iff)

lemma readers_ok_nth:
  "readers_ok k rs \<Longrightarrow> i < length rs \<Longrightarrow>
   rs ! i = reader_thread k \<or> rs ! i = [Kobject_put (Some k)] \<or> rs ! i = []"
  by (auto simp: readers_ok_def list_all_length)

lemma active_pos: "i < length rs \<Longrightarrow> rs ! i \<noteq> [] \<Longrightarrow> 0 < active rs"
  using active_update [of i rs "[]"] by (auto split: if_splits)

lemma active_drop: "i < length rs \<Longrightarrow> rs ! i \<noteq> [] \<Longrightarrow> active (rs[i := []]) = active rs - 1"
  using active_update [of i rs "[]"] by (auto split: if_splits)

lemma active_keep:
  "i < length rs \<Longrightarrow> rs ! i \<noteq> [] \<Longrightarrow> x \<noteq> [] \<Longrightarrow> active (rs[i := x]) = active rs"
  using active_update [of i rs x] by (auto split: if_splits)

lemma inv_v1_caller:
  assumes i: "inv_v1 k t (w, c, rs)" and t: "completes t"
    and s: "sched_step Caller (w, c, rs) = Some sys'"
  shows "inv_v1 k t sys'"
proof -
  from i obtain n where n: "objs w k = Some n" "ktype (kobj n) = Some (Static t)"
    by (auto simp: inv_v1_def split: option.splits)
  from i have f: "\<not> fault w" and r: "readers_ok k rs" by (auto simp: inv_v1_def)
  consider (put) "c = [Kobject_put (Some k), Wait_for_completion k]"
    | (wait) "c = [Wait_for_completion k]" | (fin) "c = []"
    using i n by (auto simp: inv_v1_def split: if_splits)
  then show ?thesis
  proof cases
    case put
    with i n have k: "kref (kobj n) = 1 + int (active rs)" "released w k = 0" "unregister n = 0"
      by (auto simp: inv_v1_def)
    from put s have s': "sys' = (kobject_put w (Some k), [Wait_for_completion k], rs)"
      by auto
    from put_completes [OF n t] k f r show ?thesis
      unfolding s' by (auto simp: inv_v1_def)
  next
    case wait
    with i n have k: "kref (kobj n) = int (active rs)"
      "if active rs = 0 then released w k = 1 \<and> unregister n = 1
       else released w k = 0 \<and> unregister n = 0"
      by (auto simp: inv_v1_def)
    from wait s n have u: "unregister n \<noteq> 0"
      by (auto simp: wait_for_completion_def split: if_splits)
    with k have a: "active rs = 0" "released w k = 1" "unregister n = 1"
      by (auto split: if_splits)
    from wait s n u have s': "sys' = (upd_unregister w k (\<lambda>d. d - 1), [], rs)"
      by (auto simp: wait_for_completion_def)
    from n k a f r show ?thesis
      unfolding s' by (auto simp: inv_v1_def upd_unregister_def)
  next
    case fin
    with s show ?thesis by simp
  qed
qed

lemma inv_v1_reader:
  assumes i: "inv_v1 k t (w, c, rs)" and t: "completes t"
    and s: "sched_step (Reader j) (w, c, rs) = Some sys'"
  shows "inv_v1 k t sys'"
proof -
  from i obtain n where n: "objs w k = Some n" "ktype (kobj n) = Some (Static t)"
    by (auto simp: inv_v1_def split: option.splits)
  from i have f: "\<not> fault w" and r: "readers_ok k rs" by (auto simp: inv_v1_def)
  from s have j: "j < length rs" by (auto split: if_splits)
  from s j have ne: "rs ! j \<noteq> []" by auto
  from readers_ok_nth [OF r j] ne
  consider (disp) "rs ! j = reader_thread k" | (put) "rs ! j = [Kobject_put (Some k)]" by auto
  then show ?thesis
  proof cases
    case disp
    with s j n have s': "sys' = (w, c, rs[j := [Kobject_put (Some k)]])"
      by (auto simp: reader_thread_def)
    from active_keep [OF j ne, of "[Kobject_put (Some k)]"]
    have a: "active (rs[j := [Kobject_put (Some k)]]) = active rs" by simp
    from readers_ok_update [OF r, of "[Kobject_put (Some k)]" j]
    have r': "readers_ok k (rs[j := [Kobject_put (Some k)]])" by simp
    from i a r' active_pos [OF j ne] show ?thesis
      unfolding s' by (auto simp: inv_v1_def split: option.splits if_splits)
  next
    case put
    with s j have s': "sys' = (kobject_put w (Some k), c, rs[j := []])" by auto
    from active_drop [OF j ne] active_pos [OF j ne]
    have a: "active (rs[j := []]) = active rs - 1" "0 < active rs" by simp_all
    from readers_ok_update [OF r, of "[]" j] have r': "readers_ok k (rs[j := []])" by simp
    from put_completes [OF n t] i n a r' f show ?thesis
      unfolding s' by (auto simp: inv_v1_def split: if_splits)
  qed
qed

lemma inv_v1_step:
  "inv_v1 k t sys \<Longrightarrow> completes t \<Longrightarrow> sched_step tid sys = Some sys' \<Longrightarrow> inv_v1 k t sys'"
  by (cases sys; cases tid) (auto intro: inv_v1_caller inv_v1_reader)

lemma inv_v1_run:
  "inv_v1 k t sys \<Longrightarrow> completes t \<Longrightarrow> run sched sys = Some sys' \<Longrightarrow> inv_v1 k t sys'"
proof (induction sched arbitrary: sys)
  case Nil
  then show ?case by simp
next
  case (Cons tid sched)
  from Cons.prems(3) obtain sys1 where s: "sched_step tid sys = Some sys1" "run sched sys1 = Some sys'"
    by (auto split: option.splits)
  from inv_v1_step [OF Cons.prems(1) Cons.prems(2) s(1)] have "inv_v1 k t sys1" .
  from Cons.IH [OF this Cons.prems(2) s(2)] show ?case .
qed

lemma inv_v1_start:
  "in_use w k t N \<Longrightarrow> inv_v1 k t (start w (destroy_thread_v1 k) k N)"
  using active_replicate [of N k]
  by (auto simp: in_use_def start_def inv_v1_def destroy_thread_v1_def
      readers_ok_def list_all_iff split: option.splits)


lemma inv_v1_facts:
  assumes "inv_v1 k t (w, c, rs)"
  shows "c = [] \<longrightarrow> all_done rs \<and> released w k = 1"
    and "0 < released w k \<longrightarrow> all_done rs \<and> released w k = 1"
    and "\<not> fault w" and "objs w k \<noteq> None"
    and "c = [Wait_for_completion k] \<longrightarrow>
          (sched_step Caller (w, c, rs) = None) = (\<not> all_done rs)"
  using assms
  by (auto simp: inv_v1_def active_zero [symmetric] wait_for_completion_def
      split: option.splits if_splits)

subsection \<open>Example runs\<close>

lemmas eval_defs =
  start_def world_with_def world0_def node_in_use_def reader_thread_def destroy_thread_v1_def
  destroy_thread_v2_def kill_thread_v1_def kill_thread_v2_def
  kobject_put.simps kobject_cleanup.simps upd_kobj_def kobject_del_def dir_of_def
  btrfs_kobject_release_v1_def btrfs_device_release_v1_def
  complete_def upd_unregister_def wait_for_completion_def

lemma replicate_2: "replicate 2 x = [x, x]"
  by (simp add: numeral_2_eq_2)

lemma in_use_example: "in_use (world_with k t N) k t N"
  by (simp add: in_use_def world_with_def world0_def node_in_use_def)

lemma run_v1_example:
  "run [Reader 0, Caller, Reader 1, Reader 0, Reader 1, Caller]
     (start (world_with 7 Btrfs_ktype_device_dir_v1 2) (destroy_thread_v1 7) 7 2) =
   Some ((world_with 7 Btrfs_ktype_device_dir_v1 2)
           \<lparr>objs := (objs (world_with 7 Btrfs_ktype_device_dir_v1 2))
              (7 \<mapsto> \<lparr>kobj = \<lparr>k_name = ''devices'', parent = None, kset = None,
                   ktype = Some (Static Btrfs_ktype_device_dir_v1), kref = 0, state_initialized = True,
                   state_in_sysfs = False\<rparr>, unregister = 0\<rparr>),
             sysfs := (\<lambda>_. None),
             released := (\<lambda>_. 0)(7 := 1)\<rparr>, [], [[], []])"
  by (simp add: eval_defs replicate_2)

lemma run_v1_blocked_example:
  "run [Caller, Reader 0]
     (start (world_with 7 Btrfs_ktype_device_dir_v1 2) (destroy_thread_v1 7) 7 2) =
   Some ((world_with 7 Btrfs_ktype_device_dir_v1 2)
           \<lparr>objs := (objs (world_with 7 Btrfs_ktype_device_dir_v1 2))
              (7 \<mapsto> \<lparr>kobj = \<lparr>k_name = ''devices'', parent = None, kset = None,
                   ktype = Some (Static Btrfs_ktype_device_dir_v1), kref = 2, state_initialized = True,
                   state_in_sysfs = True\<rparr>, unregister = 0\<rparr>)\<rparr>,
         [Wait_for_completion 7], [[Kobject_put (Some 7)], reader_thread 7])"
  by (simp add: eval_defs replicate_2)

text \<open>The second design's \<open>btrfs_init_sysfs\<close> with every allocation succeeding: the kset
  at 100 and the three fixed nodes at 101, 102 and 103, each with one reference and with
  the node type it was registered under gone with the stack frame of
  \<open>btrfs_kobject_create\<close>.\<close>

lemma init_v2_ok:
  "btrfs_init_sysfs_v2 world0 =
     (Inr (),
      world0\<lparr>objs := (objs world0)
                (100 \<mapsto> \<lparr>kobj = \<lparr>k_name = ''btrfs'', parent = None, kset = None, ktype = None,
                    kref = 1, state_initialized = True, state_in_sysfs = False\<rparr>, unregister = 0\<rparr>,
                 101 \<mapsto> \<lparr>kobj = \<lparr>k_name = ''devices'', parent = Some 100, kset = Some 100,
                    ktype = Some Dangling, kref = 1, state_initialized = True,
                    state_in_sysfs = True\<rparr>, unregister = 0\<rparr>,
                 102 \<mapsto> \<lparr>kobj = \<lparr>k_name = ''health'', parent = Some 100, kset = Some 100,
                    ktype = Some Dangling, kref = 1, state_initialized = True,
                    state_in_sysfs = True\<rparr>, unregister = 0\<rparr>,
                 103 \<mapsto> \<lparr>kobj = \<lparr>k_name = ''info'', parent = Some 100, kset = Some 100,
                    ktype = Some Dangling, kref = 1, state_initialized = True,
                    state_in_sysfs = True\<rparr>, unregister = 0\<rparr>),
              sysfs := (sysfs world0)((Dir 100, ''devices'') \<mapsto> 101,
                 (Dir 100, ''health'') \<mapsto> 102, (Dir 100, ''info'') \<mapsto> 103),
              brk := 104,
              klog := [''btrfs: About to notify the userspace abt this'' @ [newline],
                       ''btrfs: About to notify the userspace abt this'' @ [newline],
                       ''btrfs: About to notify the userspace abt this'' @ [newline]],
              btrfs_kset := Some 100, btrfs_devices := Some 101, btrfs_health := Some 102,
              btrfs_info := Some 103\<rparr>)"
  by (simp add: init_v2_defs)

lemma world_v2_reading_devices:
  "objs world_v2_reading 101 =
     Some \<lparr>kobj = \<lparr>k_name = ''devices'', parent = Some 100, kset = Some 100,
             ktype = Some Dangling, kref = 2, state_initialized = True,
             state_in_sysfs = True\<rparr>, unregister = 0\<rparr>"
  "released world_v2_reading 101 = 0"
  "btrfs_devices world_v2_reading = Some 101"
  by (simp_all only: world_v2_reading_def world_v2_def init_v2_ok snd_conv)
    (simp_all add: kobject_get_def upd_kobj_def world0_def)

lemma destroy_v2_example:
  "btrfs_kobject_destroy_v2 world_v2_reading (Some 101) =
     world_v2_reading
       \<lparr>objs := (objs world_v2_reading)
          (101 \<mapsto> \<lparr>kobj = \<lparr>k_name = ''devices'', parent = Some 100, kset = Some 100,
               ktype = Some Dangling, kref = 1, state_initialized = True,
               state_in_sysfs = True\<rparr>, unregister = 0\<rparr>)\<rparr>"
  by (simp add: btrfs_kobject_destroy_v2_def
      kobject_put_keep [OF world_v2_reading_devices(1)] upd_kobj_def world_v2_reading_devices)

text \<open>Dropping the last reference of a fixed node of the second design: \<open>kobject_put\<close>
  reads the node type through the pointer that \<open>btrfs_kobject_create\<close> registered, which
  pointed to that call's own parameter.\<close>

lemma put_last_v2_dangling:
  "fault (btrfs_kobject_destroy_v2 world_v2 (Some 101))"
  by (simp only: world_v2_def init_v2_ok snd_conv)
    (simp add: btrfs_kobject_destroy_v2_def kobject_put.simps kobject_cleanup.simps upd_kobj_def)

lemma run_v2_example:
  "run [Caller] (start world_v2_reading (destroy_thread_v2 101) 101 1) =
     Some (btrfs_kobject_destroy_v2 world_v2_reading (Some 101), [], [reader_thread 101])"
  by (simp add: start_def destroy_thread_v2_def btrfs_kobject_destroy_v2_def)

subsection \<open>Claim C1\<close>

lemma caller_v2_step:
  assumes "sched_step i (w, c, rs) = Some (w', c', rs')"
    and "c = [] \<or> c = destroy_thread_v2 k"
  shows "c' = [] \<or> c' = destroy_thread_v2 k"
proof (cases i)
  case Caller
  with assms show ?thesis
    by (auto simp: destroy_thread_v2_def split: list.splits option.splits)
next
  case (Reader j)
  with assms(1) have "c' = c"
    by (auto split: if_splits list.splits option.splits)
  with assms(2) show ?thesis by simp
qed

lemma caller_v2_run:
  "run sched (w, c, rs) = Some (w', c', rs') \<Longrightarrow> c = [] \<or> c = destroy_thread_v2 k \<Longrightarrow>
   c' = [] \<or> c' = destroy_thread_v2 k"
proof (induction sched arbitrary: w c rs)
  case Nil
  then show ?case by simp
next
  case (Cons i sched)
  from Cons.prems(1) obtain w1 c1 rs1 where
    s: "sched_step i (w, c, rs) = Some (w1, c1, rs1)"
    and r: "run sched (w1, c1, rs1) = Some (w', c', rs')"
    by (cases "sched_step i (w, c, rs)") auto
  from caller_v2_step [OF s Cons.prems(2)] have "c1 = [] \<or> c1 = destroy_thread_v2 k" .
  from Cons.IH [OF r this] show ?case .
qed

text \<open>
  Claim C1, amended. The caller runs \<open>btrfs_kobject_destroy\<close> on a node while \<open>N\<close>
  accesses, each holding a reference, run their dispatch and drop their references, in
  any interleaving.

  First design, on a registered node with the registry's reference and one reference for
  each access, whose type's release function completes the node's completion: the caller
  has returned only when every access is finished and the release function has run
  exactly once; the release function never runs before every access is finished and
  never twice; no freed object is used; and while the caller is in
  \<open>wait_for_completion\<close> it is blocked exactly as long as an access is unfinished.

  Second design, in every state: \<open>btrfs_kobject_destroy\<close> is the single call
  \<open>kobject_put\<close>. In every interleaving the caller either has returned or still has
  that one call to make, and the call is enabled whatever the accesses have done: the
  caller never waits for them. Scheduled first, the caller has returned after its one
  step, with all \<open>N\<close> accesses still to run.
\<close>

theorem destroy_blocks_in_v1_only:
  "(in_use w k t N \<and> run sched (start w c0 k N) = Some (w', c', rs') \<longrightarrow>
     (completes t \<and> c0 = destroy_thread_v1 k \<longrightarrow>
        (c' = [] \<longrightarrow> all_done rs' \<and> released w' k = 1) \<and>
        (0 < released w' k \<longrightarrow> all_done rs' \<and> released w' k = 1) \<and>
        \<not> fault w' \<and> objs w' k \<noteq> None \<and>
        (c' = [Wait_for_completion k] \<longrightarrow>
           (sched_step Caller (w', c', rs') = None) = (\<not> all_done rs')))) \<and>
   (run sched (start w (destroy_thread_v2 k) k N) = Some (w', c', rs') \<longrightarrow>
      (c' = [] \<or> c' = destroy_thread_v2 k) \<and>
      (c' \<noteq> [] \<longrightarrow> sched_step Caller (w', c', rs') \<noteq> None)) \<and>
   exec_steps (destroy_thread_v2 k) w = Some (btrfs_kobject_destroy_v2 w (Some k)) \<and>
   run [Caller] (start w (destroy_thread_v2 k) k N) =
     Some (btrfs_kobject_destroy_v2 w (Some k), [], replicate N (reader_thread k))"
proof (intro impI conjI)
  assume a: "in_use w k t N \<and> run sched (start w c0 k N) = Some (w', c', rs')"
    and b: "completes t \<and> c0 = destroy_thread_v1 k"
  from a b have "inv_v1 k t (w', c', rs')"
    using inv_v1_run [OF inv_v1_start, of w k t N sched "(w', c', rs')"] by simp
  note f = inv_v1_facts [OF this]
  {
    assume "c' = []"
    with f(1) show "all_done rs'" "released w' k = 1" by simp_all
  }
  {
    assume "0 < released w' k"
    with f(2) show "all_done rs'" "released w' k = 1" by simp_all
  }
  from f(3) show "\<not> fault w'" .
  from f(4) show "objs w' k \<noteq> None" .
  {
    assume "c' = [Wait_for_completion k]"
    with f(5) show "(sched_step Caller (w', c', rs') = None) = (\<not> all_done rs')" by simp
  }
next
  assume r: "run sched (start w (destroy_thread_v2 k) k N) = Some (w', c', rs')"
  from caller_v2_run [OF r [unfolded start_def]]
  show c: "c' = [] \<or> c' = destroy_thread_v2 k" by simp
  {
    assume "c' \<noteq> []"
    with c have "c' = destroy_thread_v2 k" by simp
    then show "sched_step Caller (w', c', rs') \<noteq> None"
      by (simp add: destroy_thread_v2_def)
  }
next
  show "exec_steps (destroy_thread_v2 k) w = Some (btrfs_kobject_destroy_v2 w (Some k))"
    by (simp add: destroy_thread_v2_def btrfs_kobject_destroy_v2_def)
  show "run [Caller] (start w (destroy_thread_v2 k) k N) =
     Some (btrfs_kobject_destroy_v2 w (Some k), [], replicate N (reader_thread k))"
    by (simp add: start_def destroy_thread_v2_def btrfs_kobject_destroy_v2_def)
qed

text \<open>
  The theorem at node 7 with two accesses in flight (first design): a complete run, and
  the state after the caller's \<open>kobject_put\<close> and one dispatch, in which the caller is
  blocked; and at the \<open>devices\<close> node that the second design's \<open>btrfs_init_sysfs\<close>
  creates, with one access in flight.
\<close>

theorem destroy_blocks_in_v1_only_witness:
  "in_use (world_with 7 Btrfs_ktype_device_dir_v1 2) 7 Btrfs_ktype_device_dir_v1 2 \<and>
   completes Btrfs_ktype_device_dir_v1 \<and>
   (case run [Reader 0, Caller, Reader 1, Reader 0, Reader 1, Caller]
           (start (world_with 7 Btrfs_ktype_device_dir_v1 2) (destroy_thread_v1 7) 7 2) of
      None \<Rightarrow> False
    | Some (w', c', rs') \<Rightarrow> c' = [] \<and> all_done rs' \<and> released w' 7 = 1 \<and> \<not> fault w') \<and>
   (case run [Caller, Reader 0]
           (start (world_with 7 Btrfs_ktype_device_dir_v1 2) (destroy_thread_v1 7) 7 2) of
      None \<Rightarrow> False
    | Some (w', c', rs') \<Rightarrow>
        c' = [Wait_for_completion 7] \<and> \<not> all_done rs' \<and> released w' 7 = 0 \<and>
        sched_step Caller (w', c', rs') = None) \<and>
   run [Caller] (start world_v2_reading (destroy_thread_v2 101) 101 1) =
     Some (btrfs_kobject_destroy_v2 world_v2_reading (Some 101), [], [reader_thread 101]) \<and>
   (case run [Reader 0] (start world_v2_reading (destroy_thread_v2 101) 101 1) of
      None \<Rightarrow> False
    | Some (w', c', rs') \<Rightarrow>
        c' = destroy_thread_v2 101 \<and> sched_step Caller (w', c', rs') \<noteq> None)"
proof -
  note u1 = in_use_example [of 7 Btrfs_ktype_device_dir_v1 2]
  have c1: "completes Btrfs_ktype_device_dir_v1" by (simp add: completes_def)
  let ?wa = "(world_with 7 Btrfs_ktype_device_dir_v1 2)
           \<lparr>objs := (objs (world_with 7 Btrfs_ktype_device_dir_v1 2))
              (7 \<mapsto> \<lparr>kobj = \<lparr>k_name = ''devices'', parent = None, kset = None,
                   ktype = Some (Static Btrfs_ktype_device_dir_v1), kref = 0, state_initialized = True,
                   state_in_sysfs = False\<rparr>, unregister = 0\<rparr>),
             sysfs := (\<lambda>_. None),
             released := (\<lambda>_. 0)(7 := 1)\<rparr>"
  have ra: "run [Reader 0, Caller, Reader 1, Reader 0, Reader 1, Caller]
      (start (world_with 7 Btrfs_ktype_device_dir_v1 2) (destroy_thread_v1 7) 7 2)
      = Some (?wa, [], [[], []])"
    by (rule run_v1_example)
  from destroy_blocks_in_v1_only [of "world_with 7 Btrfs_ktype_device_dir_v1 2" 7
      Btrfs_ktype_device_dir_v1 2 "[Reader 0, Caller, Reader 1, Reader 0, Reader 1, Caller]"
      "destroy_thread_v1 7" ?wa "[]" "[[], []]"] u1 c1 ra
  have fa: "all_done [[], []] \<and> released ?wa 7 = 1 \<and> \<not> fault ?wa" by blast
  have a: "case run [Reader 0, Caller, Reader 1, Reader 0, Reader 1, Caller]
           (start (world_with 7 Btrfs_ktype_device_dir_v1 2) (destroy_thread_v1 7) 7 2) of
      None \<Rightarrow> False
    | Some (w', c', rs') \<Rightarrow> c' = [] \<and> all_done rs' \<and> released w' 7 = 1 \<and> \<not> fault w'"
    unfolding ra option.case prod.case using fa by blast
  let ?wb = "(world_with 7 Btrfs_ktype_device_dir_v1 2)
           \<lparr>objs := (objs (world_with 7 Btrfs_ktype_device_dir_v1 2))
              (7 \<mapsto> \<lparr>kobj = \<lparr>k_name = ''devices'', parent = None, kset = None,
                   ktype = Some (Static Btrfs_ktype_device_dir_v1), kref = 2, state_initialized = True,
                   state_in_sysfs = True\<rparr>, unregister = 0\<rparr>)\<rparr>"
  have rb: "run [Caller, Reader 0]
      (start (world_with 7 Btrfs_ktype_device_dir_v1 2) (destroy_thread_v1 7) 7 2)
      = Some (?wb, [Wait_for_completion 7], [[Kobject_put (Some 7)], reader_thread 7])"
    by (rule run_v1_blocked_example)
  have wb: "released ?wb 7 = 0" by (simp add: world_with_def world0_def)
  have nd: "\<not> all_done [[Kobject_put (Some 7)], reader_thread 7]" by (simp add: all_done_def)
  from destroy_blocks_in_v1_only [of "world_with 7 Btrfs_ktype_device_dir_v1 2" 7
      Btrfs_ktype_device_dir_v1 2 "[Caller, Reader 0]"
      "destroy_thread_v1 7" ?wb "[Wait_for_completion 7]"
      "[[Kobject_put (Some 7)], reader_thread 7]"] u1 c1 rb nd
  have fb: "sched_step Caller (?wb, [Wait_for_completion 7],
          [[Kobject_put (Some 7)], reader_thread 7]) = None" by blast
  have b: "case run [Caller, Reader 0]
           (start (world_with 7 Btrfs_ktype_device_dir_v1 2) (destroy_thread_v1 7) 7 2) of
      None \<Rightarrow> False
    | Some (w', c', rs') \<Rightarrow>
        c' = [Wait_for_completion 7] \<and> \<not> all_done rs' \<and> released w' 7 = 0 \<and>
        sched_step Caller (w', c', rs') = None"
    unfolding rb option.case prod.case using wb nd fb by blast
  from destroy_blocks_in_v1_only [where w = world_v2_reading and k = 101
      and N = 1]
  have c: "run [Caller] (start world_v2_reading (destroy_thread_v2 101) 101 1) =
     Some (btrfs_kobject_destroy_v2 world_v2_reading (Some 101), [], [reader_thread 101])"
    by simp
  let ?wd = "case objs world_v2_reading 101 of None \<Rightarrow> world_v2_reading\<lparr>fault := True\<rparr>
     | Some n \<Rightarrow> (case ktype (kobj n) of None \<Rightarrow> world_v2_reading
         | Some p \<Rightarrow> (case ktype_at p of None \<Rightarrow> world_v2_reading\<lparr>fault := True\<rparr>
             | Some t \<Rightarrow> world_v2_reading))"
  have rd: "run [Reader 0] (start world_v2_reading (destroy_thread_v2 101) 101 1) =
      Some (?wd, destroy_thread_v2 101, [[Kobject_put (Some 101)]])"
    by (simp add: start_def reader_thread_def)
  from destroy_blocks_in_v1_only [where w = world_v2_reading and k = 101 and N = 1
      and sched = "[Reader 0]" and w' = ?wd and c' = "destroy_thread_v2 101"
      and rs' = "[[Kobject_put (Some 101)]]"] rd
  have fd: "destroy_thread_v2 101 \<noteq> [] \<longrightarrow>
      sched_step Caller (?wd, destroy_thread_v2 101, [[Kobject_put (Some 101)]]) \<noteq> None"
    by blast
  have ne: "destroy_thread_v2 101 \<noteq> []" by (simp add: destroy_thread_v2_def)
  have d: "case run [Reader 0] (start world_v2_reading (destroy_thread_v2 101) 101 1) of
      None \<Rightarrow> False
    | Some (w', c', rs') \<Rightarrow>
        c' = destroy_thread_v2 101 \<and> sched_step Caller (w', c', rs') \<noteq> None"
    unfolding rd option.case prod.case using fd ne by blast
  from u1 c1 a b c d show ?thesis by blast
qed

text \<open>
  Claim C1 as stated fails in the second design. \<open>btrfs_init_sysfs\<close> succeeds and makes
  the \<open>devices\<close> node (address 101); an access takes a reference on it; then the single
  step of \<open>btrfs_kobject_destroy\<close> is run. The caller has returned, the access has not yet
  run its dispatch, and the release function has not run.
\<close>

theorem destroy_v2_returns_with_reader_in_flight:
  "fst (btrfs_init_sysfs_v2 world0) = Inr () \<and>
   btrfs_devices world_v2_reading = Some 101 \<and>
   (case run [Caller] (start world_v2_reading (destroy_thread_v2 101) 101 1) of
      None \<Rightarrow> False
    | Some (w', c', rs') \<Rightarrow>
        c' = [] \<and> rs' = [reader_thread 101] \<and> \<not> all_done rs' \<and> released w' 101 = 0 \<and>
        objs w' 101 \<noteq> None)"
proof (intro conjI)
  show "fst (btrfs_init_sysfs_v2 world0) = Inr ()"
    by (simp only: init_v2_ok fst_conv)
  show "btrfs_devices world_v2_reading = Some 101"
    by (rule world_v2_reading_devices)
  have wd: "released (btrfs_kobject_destroy_v2 world_v2_reading (Some 101)) 101 = 0"
    "objs (btrfs_kobject_destroy_v2 world_v2_reading (Some 101)) 101 \<noteq> None"
    by (simp_all only: destroy_v2_example) (simp_all add: world_v2_reading_devices)
  have nd: "\<not> all_done [reader_thread 101]" by (simp add: all_done_def reader_thread_def)
  show "case run [Caller] (start world_v2_reading (destroy_thread_v2 101) 101 1) of
      None \<Rightarrow> False
    | Some (w', c', rs') \<Rightarrow>
        c' = [] \<and> rs' = [reader_thread 101] \<and> \<not> all_done rs' \<and> released w' 101 = 0 \<and>
        objs w' 101 \<noteq> None"
    unfolding run_v2_example option.case prod.case using wd nd by blast
qed

subsection \<open>Claim C8\<close>

lemma threads_are_the_functions:
  "exec_steps (kill_thread_v2 k) w = Some (btrfs_kill_device_v2 w k)"
  "exec_steps (destroy_thread_v2 k) w = Some (btrfs_kobject_destroy_v2 w (Some k))"
  "exec_steps (kill_thread_v1 k) w = btrfs_kill_device_v1 w k"
  "exec_steps (destroy_thread_v1 k) w = btrfs_kobject_destroy_v1 w k"
  by (simp_all add: kill_thread_v2_def destroy_thread_v2_def kill_thread_v1_def
      destroy_thread_v1_def btrfs_kill_device_v2_def btrfs_kobject_destroy_v2_def
      btrfs_kill_device_v1_def btrfs_kobject_destroy_v1_def split: option.splits)

lemma put_then_wait:
  assumes u: "in_use w k t N" and t: "completes t"
  shows "(wait_for_completion (kobject_put w (Some k)) k = None) = (0 < N)"
proof -
  from u obtain n where n: "objs w k = Some n" "ktype (kobj n) = Some (Static t)"
    and k: "kref (kobj n) = 1 + int N" "unregister n = 0"
    by (auto simp: in_use_def split: option.splits)
  from put_completes(1) [OF n t] k obtain n' where
    "objs (kobject_put w (Some k)) k = Some n'"
    "unregister n' = (if N = 0 then 1 else 0)"
    by auto
  then show ?thesis by (auto simp: wait_for_completion_def)
qed

lemma kill_v1_example:
  "btrfs_kill_device_v1 (world_with 7 Btrfs_ktype_device_v1 1) 7 = None"
  by (simp add: btrfs_kill_device_v1_def eval_defs)

text \<open>
  Claim C8, amended. In the second design \<open>btrfs_kill_device\<close> is one \<open>kobject_put\<close>:
  run as a thread it is the function, and its step is enabled in every state, so it never
  waits. The same holds of the second design's \<open>btrfs_kobject_destroy\<close>: no lifecycle
  function of the second design blocks. In the first design both \<open>btrfs_kill_device\<close>
  and \<open>btrfs_kobject_destroy\<close> are a \<open>kobject_put\<close> followed by
  \<open>wait_for_completion\<close>, and on a registered node with \<open>N\<close> further references
  held each of them sleeps (does not return on its own) exactly when \<open>N\<close> is positive.
\<close>

theorem kill_device_waits_in_v1_only:
  "exec_steps (kill_thread_v2 k) w = Some (btrfs_kill_device_v2 w k) \<and>
   exec_steps (destroy_thread_v2 k) w = Some (btrfs_kobject_destroy_v2 w (Some k)) \<and>
   sched_step Caller (w, kill_thread_v2 k, rs) \<noteq> None \<and>
   sched_step Caller (w, destroy_thread_v2 k, rs) \<noteq> None \<and>
   exec_steps (kill_thread_v1 k) w = btrfs_kill_device_v1 w k \<and>
   exec_steps (destroy_thread_v1 k) w = btrfs_kobject_destroy_v1 w k \<and>
   (in_use w k t N \<and> completes t \<longrightarrow>
      (btrfs_kill_device_v1 w k = None) = (0 < N) \<and>
      (btrfs_kobject_destroy_v1 w k = None) = (0 < N))"
proof (intro conjI impI)
  show "exec_steps (kill_thread_v2 k) w = Some (btrfs_kill_device_v2 w k)"
    by (rule threads_are_the_functions)
  show "exec_steps (destroy_thread_v2 k) w = Some (btrfs_kobject_destroy_v2 w (Some k))"
    by (rule threads_are_the_functions)
  show "sched_step Caller (w, kill_thread_v2 k, rs) \<noteq> None"
    by (simp add: kill_thread_v2_def)
  show "sched_step Caller (w, destroy_thread_v2 k, rs) \<noteq> None"
    by (simp add: destroy_thread_v2_def)
  show "exec_steps (kill_thread_v1 k) w = btrfs_kill_device_v1 w k"
    by (rule threads_are_the_functions)
  show "exec_steps (destroy_thread_v1 k) w = btrfs_kobject_destroy_v1 w k"
    by (rule threads_are_the_functions)
next
  assume "in_use w k t N \<and> completes t"
  then have "in_use w k t N" "completes t" by simp_all
  from put_then_wait [OF this] show "(btrfs_kill_device_v1 w k = None) = (0 < N)"
    by (simp add: btrfs_kill_device_v1_def)
next
  assume "in_use w k t N \<and> completes t"
  then have "in_use w k t N" "completes t" by simp_all
  from put_then_wait [OF this] show "(btrfs_kobject_destroy_v1 w k = None) = (0 < N)"
    by (simp add: btrfs_kobject_destroy_v1_def)
qed

text \<open>The theorem at a first-design device node with one further reference (the caller
  sleeps) and with none (it returns), and at a second-design device node.\<close>

theorem kill_device_waits_in_v1_only_witness:
  "in_use (world_with 7 Btrfs_ktype_device_v1 1) 7 Btrfs_ktype_device_v1 1 \<and>
   completes Btrfs_ktype_device_v1 \<and>
   btrfs_kill_device_v1 (world_with 7 Btrfs_ktype_device_v1 1) 7 = None \<and>
   in_use (world_with 7 Btrfs_ktype_device_v1 0) 7 Btrfs_ktype_device_v1 0 \<and>
   btrfs_kill_device_v1 (world_with 7 Btrfs_ktype_device_v1 0) 7 \<noteq> None \<and>
   exec_steps (kill_thread_v2 7) (world_with 7 Btrfs_ktype_device_v2 1) \<noteq> None"
proof -
  note u1 = in_use_example [of 7 Btrfs_ktype_device_v1 1]
  note u0 = in_use_example [of 7 Btrfs_ktype_device_v1 0]
  have c: "completes Btrfs_ktype_device_v1" by (simp add: completes_def)
  from kill_device_waits_in_v1_only [of 7 "world_with 7 Btrfs_ktype_device_v1 1" "[]"
      Btrfs_ktype_device_v1 1] u1 c
  have a: "btrfs_kill_device_v1 (world_with 7 Btrfs_ktype_device_v1 1) 7 = None" by simp
  from kill_device_waits_in_v1_only [of 7 "world_with 7 Btrfs_ktype_device_v1 0" "[]"
      Btrfs_ktype_device_v1 0] u0 c
  have b: "btrfs_kill_device_v1 (world_with 7 Btrfs_ktype_device_v1 0) 7 \<noteq> None" by simp
  from kill_device_waits_in_v1_only [of 7 "world_with 7 Btrfs_ktype_device_v2 1" "[]"]
  have d: "exec_steps (kill_thread_v2 7) (world_with 7 Btrfs_ktype_device_v2 1) \<noteq> None"
    by simp
  from u1 u0 c a b d show ?thesis by blast
qed

text \<open>
  Claim C8 as stated fails on both counts: the first design's \<open>btrfs_kill_device\<close> on
  a device node with an access in flight blocks, and the second design's
  \<open>btrfs_kobject_destroy\<close> on the \<open>devices\<close> node that \<open>btrfs_init_sysfs\<close> has
  made, with an access in flight, returns at once, before the release function has run.
\<close>

theorem kill_device_v1_blocks_destroy_v2_does_not:
  "btrfs_kill_device_v1 (world_with 7 Btrfs_ktype_device_v1 1) 7 = None \<and>
   exec_steps (kill_thread_v1 7) (world_with 7 Btrfs_ktype_device_v1 1) = None \<and>
   exec_steps (destroy_thread_v2 101) world_v2_reading =
     Some (btrfs_kobject_destroy_v2 world_v2_reading (Some 101)) \<and>
   released (btrfs_kobject_destroy_v2 world_v2_reading (Some 101)) 101 = 0"
proof (intro conjI)
  show "btrfs_kill_device_v1 (world_with 7 Btrfs_ktype_device_v1 1) 7 = None"
    by (rule kill_v1_example)
  show "exec_steps (kill_thread_v1 7) (world_with 7 Btrfs_ktype_device_v1 1) = None"
    by (simp only: threads_are_the_functions kill_v1_example)
  show "exec_steps (destroy_thread_v2 101) world_v2_reading =
     Some (btrfs_kobject_destroy_v2 world_v2_reading (Some 101))"
    by (rule threads_are_the_functions)
  show "released (btrfs_kobject_destroy_v2 world_v2_reading (Some 101)) 101 = 0"
    by (simp only: destroy_v2_example) (simp add: world_v2_reading_devices)
qed

subsection \<open>Claim C5\<close>

lemma lookup_attr_None:
  "n \<notin> set (map (\<lambda>a. name (attr a)) attrs) \<Longrightarrow> lookup_attr n attrs = None"
  by (induction attrs) auto

lemma lookup_attr_Some:
  "lookup_attr n attrs = Some a \<Longrightarrow> a \<in> set attrs \<and> name (attr a) = n"
  by (induction attrs) (auto split: if_splits)

lemma lookup_attr_found:
  "n \<in> set (map (\<lambda>a. name (attr a)) attrs) \<Longrightarrow> \<exists>a. lookup_attr n attrs = Some a"
  by (induction attrs) auto

lemma device_attr_names_v2:
  "map (\<lambda>a. name (attr a)) (btrfs_device_default_attrs_v2 :: (device_show_fn_v2, unit) btrfs_attr list) =
     [''uuid'', ''label'', ''cnt_write_io_errs'', ''cnt_read_io_errs'', ''cnt_flush_io_errs'',
      ''cnt_corruption_errs'', ''cnt_generation_errs'']"
  by (simp add: btrfs_device_default_attrs_v2_def btrfs_attr_uuid_def btrfs_attr_label_def
        btrfs_attr_cnt_write_io_errs_def btrfs_attr_cnt_read_io_errs_def
        btrfs_attr_cnt_flush_io_errs_def btrfs_attr_cnt_corruption_errs_def
        btrfs_attr_cnt_generation_errs_def ATTR_def)

text \<open>
  Claim C5, against the host's lookup as the spec describes it. For a name that no
  attribute of the node type's table carries, a read and a write both fail with NotFound
  (\<open>ENOENT\<close>), whichever dispatch function of the file is the \<open>sysfs_ops\<close> member and
  whatever the accessors would do: the lookup comes first and no accessor is invoked. A
  name is resolved only by equality with an attribute's whole name: when a read or write
  reaches a dispatch function, it is with an attribute of the table that carries exactly
  that name.
\<close>

theorem unknown_attribute_not_found:
  fixes attrs :: "('sh, 'st, 'z) btrfs_attr_scheme list"
    and call_sh :: "'sh \<Rightarrow> 'k \<Rightarrow> ('sh, 'st, 'z) btrfs_attr_scheme \<Rightarrow> error + shown"
    and call_st :: "'st \<Rightarrow> 'k \<Rightarrow> ('sh, 'st, 'z) btrfs_attr_scheme \<Rightarrow> string \<Rightarrow> nat \<Rightarrow> error + 'r"
  shows
  "(n \<notin> set (map (\<lambda>a. name (attr a)) attrs) \<longrightarrow>
      read_attr (btrfs_device_attr_show call_sh) k attrs n = Inl ENOENT \<and>
      write_attr (btrfs_device_attr_store call_st) k attrs n buf len = Inl ENOENT \<and>
      read_attr (btrfs_kobject_attr_show call_sh) k attrs n = Inl ENOENT \<and>
      write_attr (btrfs_kobject_attr_store call_st) k attrs n buf len = Inl ENOENT) \<and>
   (n \<in> set (map (\<lambda>a. name (attr a)) attrs) \<longrightarrow>
      (\<exists>a \<in> set attrs. name (attr a) = n \<and>
         read_attr (btrfs_device_attr_show call_sh) k attrs n =
           btrfs_device_attr_show call_sh k a \<and>
         write_attr (btrfs_device_attr_store call_st) k attrs n buf len =
           btrfs_device_attr_store call_st k a buf len))"
proof (intro conjI impI)
  assume "n \<notin> set (map (\<lambda>a. name (attr a)) attrs)"
  then have l: "lookup_attr n attrs = None" by (rule lookup_attr_None)
  from l show "read_attr (btrfs_device_attr_show call_sh) k attrs n = Inl ENOENT"
    by (simp add: read_attr_def)
  from l show "write_attr (btrfs_device_attr_store call_st) k attrs n buf len = Inl ENOENT"
    by (simp add: write_attr_def)
  from l show "read_attr (btrfs_kobject_attr_show call_sh) k attrs n = Inl ENOENT"
    by (simp add: read_attr_def)
  from l show "write_attr (btrfs_kobject_attr_store call_st) k attrs n buf len = Inl ENOENT"
    by (simp add: write_attr_def)
next
  assume "n \<in> set (map (\<lambda>a. name (attr a)) attrs)"
  then obtain a where a: "lookup_attr n attrs = Some a" using lookup_attr_found by blast
  from lookup_attr_Some [OF a] a
  show "\<exists>a \<in> set attrs. name (attr a) = n \<and>
         read_attr (btrfs_device_attr_show call_sh) k attrs n =
           btrfs_device_attr_show call_sh k a \<and>
         write_attr (btrfs_device_attr_store call_st) k attrs n buf len =
           btrfs_device_attr_store call_st k a buf len"
    by (auto simp: read_attr_def write_attr_def)
qed

text \<open>The theorem at the second-design device table: \<open>cnt_read\<close>, a proper prefix of an
  attribute name, and \<open>nosuch\<close> are not found; \<open>cnt_read_io_errs\<close> is.\<close>

theorem unknown_attribute_not_found_witness:
  "''cnt_read'' \<notin> set (map (\<lambda>a. name (attr a))
      (btrfs_device_default_attrs_v2 :: (device_show_fn_v2, unit) btrfs_attr list)) \<and>
   read_attr (btrfs_device_attr_show (call_show_v2 (\<lambda>_. Some dev_small))) ()
     (btrfs_device_default_attrs_v2 :: (device_show_fn_v2, unit) btrfs_attr list) ''cnt_read''
     = Inl ENOENT \<and>
   write_attr (btrfs_device_attr_store (\<lambda>f k a buf len. Inr len)) ()
     (btrfs_device_default_attrs_v2 :: (device_show_fn_v2, unit) btrfs_attr list) ''nosuch'' ''1'' 1
     = Inl ENOENT \<and>
   read_attr (btrfs_device_attr_show (call_show_v2 (\<lambda>_. Some dev_small))) ()
     (btrfs_device_default_attrs_v2 :: (device_show_fn_v2, unit) btrfs_attr list) ''cnt_read_io_errs''
     = Inr (2, ''1'' @ [newline])"
proof -
  have a: "''cnt_read'' \<notin> set (map (\<lambda>a. name (attr a))
      (btrfs_device_default_attrs_v2 :: (device_show_fn_v2, unit) btrfs_attr list))"
    by (simp add: device_attr_names_v2)
  have b: "''nosuch'' \<notin> set (map (\<lambda>a. name (attr a))
      (btrfs_device_default_attrs_v2 :: (device_show_fn_v2, unit) btrfs_attr list))"
    by (simp add: device_attr_names_v2)
  from unknown_attribute_not_found [of "''cnt_read''"
      "btrfs_device_default_attrs_v2 :: (device_show_fn_v2, unit) btrfs_attr list"
      "call_show_v2 (\<lambda>_. Some dev_small)" "()"] a
  have c: "read_attr (btrfs_device_attr_show (call_show_v2 (\<lambda>_. Some dev_small))) ()
     (btrfs_device_default_attrs_v2 :: (device_show_fn_v2, unit) btrfs_attr list) ''cnt_read''
     = Inl ENOENT" by blast
  from unknown_attribute_not_found [of "''nosuch''"
      "btrfs_device_default_attrs_v2 :: (device_show_fn_v2, unit) btrfs_attr list"
      _ "()" "\<lambda>f k a buf len. Inr len" "''1''" 1] b
  have d: "write_attr (btrfs_device_attr_store (\<lambda>f k a buf len. Inr len)) ()
     (btrfs_device_default_attrs_v2 :: (device_show_fn_v2, unit) btrfs_attr list) ''nosuch'' ''1'' 1
     = Inl ENOENT" by blast
  have e: "read_attr (btrfs_device_attr_show (call_show_v2 (\<lambda>_. Some dev_small))) ()
     (btrfs_device_default_attrs_v2 :: (device_show_fn_v2, unit) btrfs_attr list) ''cnt_read_io_errs''
     = Inr (2, ''1'' @ [newline])"
    by (simp add: read_attr_def btrfs_device_default_attrs_v2_def btrfs_attr_uuid_def
        btrfs_attr_label_def btrfs_attr_cnt_write_io_errs_def btrfs_attr_cnt_read_io_errs_def
        ATTR_def btrfs_device_attr_show_def device_read_io_err_show_def dev_small_def
        sprintf_d_nl_def itoa_def utoa.simps digit_char_def digits_def)
  from a c d e show ?thesis by blast
qed

end
